theory Spec2Isabelle
  imports Complex_Main
begin

section \<open>Double-precision values\<close>

text \<open>
  The routines of \<^verbatim>\<open>MO_similarity.py\<close> compute on numpy float64 values. A finite double is
  read as the real number it denotes (rounding, overflow and underflow are not modelled);
  the special values of IEEE-754 that the code relies on are kept: both infinities, NaN
  and the negative zero. \<open>Fin 0\<close> is the positive zero, \<open>NZ\<close> the negative one; \<open>Fin r\<close>
  with \<open>r \<noteq> 0\<close> is an ordinary number.
\<close>

datatype fl = Fin real | NZ | PInf | NInf | NaN

text \<open>The real number a finite value denotes (both zeros denote 0).\<close>

fun rv :: "fl \<Rightarrow> real" where
  "rv (Fin r) = r"
| "rv _ = 0"

text \<open>The sign bit.\<close>

fun sgn_neg :: "fl \<Rightarrow> bool" where
  "sgn_neg (Fin r) = (r < 0)"
| "sgn_neg NZ = True"
| "sgn_neg NInf = True"
| "sgn_neg PInf = False"
| "sgn_neg NaN = False"

fun is_nan :: "fl \<Rightarrow> bool" where
  "is_nan NaN = True"
| "is_nan _ = False"

fun is_inf :: "fl \<Rightarrow> bool" where
  "is_inf PInf = True"
| "is_inf NInf = True"
| "is_inf _ = False"

fun is_zero :: "fl \<Rightarrow> bool" where
  "is_zero (Fin r) = (r = 0)"
| "is_zero NZ = True"
| "is_zero _ = False"

definition is_finite :: "fl \<Rightarrow> bool" where
  "is_finite x = (\<not> is_nan x \<and> \<not> is_inf x)"

definition mk_zero :: "bool \<Rightarrow> fl" where
  "mk_zero s = (if s then NZ else Fin 0)"

definition mk_inf :: "bool \<Rightarrow> fl" where
  "mk_inf s = (if s then NInf else PInf)"

text \<open>A finite result with the sign computed separately, so that an exact zero keeps it.\<close>

definition mk_fin :: "bool \<Rightarrow> real \<Rightarrow> fl" where
  "mk_fin s r = (if r = 0 then mk_zero s else Fin r)"

fun fneg :: "fl \<Rightarrow> fl" where
  "fneg (Fin r) = (if r = 0 then NZ else Fin (- r))"
| "fneg NZ = Fin 0"
| "fneg PInf = NInf"
| "fneg NInf = PInf"
| "fneg NaN = NaN"

fun fadd :: "fl \<Rightarrow> fl \<Rightarrow> fl" where
  "fadd NaN _ = NaN"
| "fadd _ NaN = NaN"
| "fadd PInf NInf = NaN"
| "fadd NInf PInf = NaN"
| "fadd PInf _ = PInf"
| "fadd _ PInf = PInf"
| "fadd NInf _ = NInf"
| "fadd _ NInf = NInf"
| "fadd NZ NZ = NZ"
| "fadd NZ (Fin b) = Fin b"
| "fadd (Fin a) NZ = Fin a"
| "fadd (Fin a) (Fin b) = Fin (a + b)"

definition fsub :: "fl \<Rightarrow> fl \<Rightarrow> fl" where
  "fsub x y = fadd x (fneg y)"

definition fmul :: "fl \<Rightarrow> fl \<Rightarrow> fl" where
  "fmul x y =
     (if is_nan x \<or> is_nan y then NaN
      else if is_inf x \<or> is_inf y then
        (if is_zero x \<or> is_zero y then NaN else mk_inf (sgn_neg x \<noteq> sgn_neg y))
      else mk_fin (sgn_neg x \<noteq> sgn_neg y) (rv x * rv y))"

text \<open>numpy division never raises: a zero divisor gives an infinity or NaN.\<close>

definition fdiv :: "fl \<Rightarrow> fl \<Rightarrow> fl" where
  "fdiv x y =
     (if is_nan x \<or> is_nan y then NaN
      else if is_inf x then (if is_inf y then NaN else mk_inf (sgn_neg x \<noteq> sgn_neg y))
      else if is_inf y then mk_zero (sgn_neg x \<noteq> sgn_neg y)
      else if is_zero y then (if is_zero x then NaN else mk_inf (sgn_neg x \<noteq> sgn_neg y))
      else mk_fin (sgn_neg x \<noteq> sgn_neg y) (rv x / rv y))"

definition odd_int :: "real \<Rightarrow> bool" where
  "odd_int e = (e = of_int \<lfloor>e\<rfloor> \<and> odd \<lfloor>e\<rfloor>)"

text \<open>
  \<open>x ** e\<close> for a finite exponent \<open>e\<close> (every exponent in the module is a literal), after
  C's \<open>pow\<close>: a negative base with a fractional exponent is NaN.
\<close>

definition fpow :: "fl \<Rightarrow> real \<Rightarrow> fl" where
  "fpow x e =
     (if e = 0 then Fin 1
      else if is_nan x then NaN
      else if x = PInf then (if e < 0 then Fin 0 else PInf)
      else if x = NInf then
        (if e < 0 then mk_zero (odd_int e) else mk_inf (odd_int e))
      else if is_zero x then
        (if e < 0 then mk_inf (odd_int e \<and> sgn_neg x) else mk_zero (odd_int e \<and> sgn_neg x))
      else if 0 < rv x then Fin (rv x powr e)
      else if e = of_int \<lfloor>e\<rfloor> then
        (if odd \<lfloor>e\<rfloor> then Fin (- (\<bar>rv x\<bar> powr e)) else Fin (\<bar>rv x\<bar> powr e))
      else NaN)"

fun flog :: "fl \<Rightarrow> fl" where
  "flog NaN = NaN"
| "flog PInf = PInf"
| "flog NInf = NaN"
| "flog NZ = NInf"
| "flog (Fin r) = (if r = 0 then NInf else if r < 0 then NaN else Fin (ln r))"

fun farctan :: "fl \<Rightarrow> fl" where
  "farctan NaN = NaN"
| "farctan PInf = Fin (pi / 2)"
| "farctan NInf = Fin (- (pi / 2))"
| "farctan NZ = NZ"
| "farctan (Fin r) = Fin (arctan r)"


text \<open>Comparisons: false whenever an operand is NaN; the two zeros compare equal.\<close>

fun flt :: "fl \<Rightarrow> fl \<Rightarrow> bool" where
  "flt NaN _ = False"
| "flt _ NaN = False"
| "flt PInf _ = False"
| "flt _ NInf = False"
| "flt NInf _ = True"
| "flt _ PInf = True"
| "flt x y = (rv x < rv y)"

fun feq :: "fl \<Rightarrow> fl \<Rightarrow> bool" where
  "feq NaN _ = False"
| "feq _ NaN = False"
| "feq PInf y = (y = PInf)"
| "feq NInf y = (y = NInf)"
| "feq x PInf = False"
| "feq x NInf = False"
| "feq x y = (rv x = rv y)"

definition fle :: "fl \<Rightarrow> fl \<Rightarrow> bool" where
  "fle x y = (flt x y \<or> feq x y)"

definition fge :: "fl \<Rightarrow> fl \<Rightarrow> bool" where
  "fge x y = fle y x"

definition fne :: "fl \<Rightarrow> fl \<Rightarrow> bool" where
  "fne x y = (\<not> feq x y)"

text \<open>\<^verbatim>\<open>np.maximum\<close> and \<^verbatim>\<open>np.minimum\<close> propagate NaN.\<close>

definition fmax :: "fl \<Rightarrow> fl \<Rightarrow> fl" where
  "fmax x y = (if is_nan x \<or> fge x y then x else y)"

definition fmin :: "fl \<Rightarrow> fl \<Rightarrow> fl" where
  "fmin x y = (if is_nan x \<or> fle x y then x else y)"

section \<open>numpy arrays\<close>

text \<open>
  Arrays of dimension 0 (what \<^verbatim>\<open>np.asarray\<close> makes of a scalar, and what a numpy scalar
  behaves like) and of dimension 1. The exceptions that numpy and Python raise are values.
\<close>

datatype error = IndexError | ValueError | TypeError | ZeroDivisionError

datatype 'a nd = A0 'a | A1 "'a list"

type_synonym ndarray = "fl nd"

fun shape :: "'a nd \<Rightarrow> nat option" where
  "shape (A0 x) = None"
| "shape (A1 xs) = Some (length xs)"

fun elems :: "'a nd \<Rightarrow> 'a list" where
  "elems (A0 x) = [x]"
| "elems (A1 xs) = xs"

definition bnd :: "error + 'a \<Rightarrow> ('a \<Rightarrow> error + 'b) \<Rightarrow> error + 'b" where
  "bnd r f = (case r of Inl e \<Rightarrow> Inl e | Inr v \<Rightarrow> f v)"

text \<open>A Python float literal used as an operand.\<close>

definition sc :: "real \<Rightarrow> error + ndarray" where
  "sc r = Inr (A0 (Fin r))"

fun np_full :: "nat option \<Rightarrow> 'a \<Rightarrow> 'a nd" where
  "np_full None v = A0 v"
| "np_full (Some n) v = A1 (replicate n v)"

definition np_zeros :: "nat option \<Rightarrow> ndarray" where
  "np_zeros s = np_full s (Fin 0)"

text \<open>Element-wise binary operations broadcast: a 0-d operand or one of length 1 is repeated.\<close>

fun bop :: "('a \<Rightarrow> 'b \<Rightarrow> 'c) \<Rightarrow> 'a nd \<Rightarrow> 'b nd \<Rightarrow> error + 'c nd" where
  "bop f (A0 x) (A0 y) = Inr (A0 (f x y))"
| "bop f (A0 x) (A1 ys) = Inr (A1 (map (f x) ys))"
| "bop f (A1 xs) (A0 y) = Inr (A1 (map (\<lambda>x. f x y) xs))"
| "bop f (A1 xs) (A1 ys) =
     (if length xs = length ys then Inr (A1 (map2 f xs ys))
      else if length xs = 1 then Inr (A1 (map (f (hd xs)) ys))
      else if length ys = 1 then Inr (A1 (map (\<lambda>x. f x (hd ys)) xs))
      else Inl ValueError)"

text \<open>Operands are evaluated left to right; the first exception wins.\<close>

definition np2 :: "('a \<Rightarrow> 'b \<Rightarrow> 'c) \<Rightarrow> error + 'a nd \<Rightarrow> error + 'b nd \<Rightarrow> error + 'c nd" where
  "np2 f a b = bnd a (\<lambda>x. bnd b (\<lambda>y. bop f x y))"

definition np1 :: "('a \<Rightarrow> 'b) \<Rightarrow> error + 'a nd \<Rightarrow> error + 'b nd" where
  "np1 f a = bnd a (\<lambda>x. Inr (map_nd f x))"

definition np_add :: "error + ndarray \<Rightarrow> error + ndarray \<Rightarrow> error + ndarray" where
  "np_add = np2 fadd"

definition np_sub :: "error + ndarray \<Rightarrow> error + ndarray \<Rightarrow> error + ndarray" where
  "np_sub = np2 fsub"

definition np_mul :: "error + ndarray \<Rightarrow> error + ndarray \<Rightarrow> error + ndarray" where
  "np_mul = np2 fmul"

definition np_div :: "error + ndarray \<Rightarrow> error + ndarray \<Rightarrow> error + ndarray" where
  "np_div = np2 fdiv"

definition np_maximum :: "error + ndarray \<Rightarrow> error + ndarray \<Rightarrow> error + ndarray" where
  "np_maximum = np2 fmax"

definition np_minimum :: "error + ndarray \<Rightarrow> error + ndarray \<Rightarrow> error + ndarray" where
  "np_minimum = np2 fmin"

definition np_ge :: "error + ndarray \<Rightarrow> error + ndarray \<Rightarrow> error + bool nd" where
  "np_ge = np2 fge"

definition np_lt :: "error + ndarray \<Rightarrow> error + ndarray \<Rightarrow> error + bool nd" where
  "np_lt = np2 flt"

definition np_eq :: "error + ndarray \<Rightarrow> error + ndarray \<Rightarrow> error + bool nd" where
  "np_eq = np2 feq"

definition np_neg :: "error + ndarray \<Rightarrow> error + ndarray" where
  "np_neg = np1 fneg"

definition np_log :: "error + ndarray \<Rightarrow> error + ndarray" where
  "np_log = np1 flog"

definition np_pow :: "error + ndarray \<Rightarrow> real \<Rightarrow> error + ndarray" where
  "np_pow a e = np1 (\<lambda>x. fpow x e) a"

subsection \<open>Boolean-mask indexing\<close>

text \<open>The elements of \<open>xs\<close> at which the mask is true, in order.\<close>

fun sel :: "bool list \<Rightarrow> 'a list \<Rightarrow> 'a list" where
  "sel (b # bs) (x # xs) = (if b then x # sel bs xs else sel bs xs)"
| "sel _ _ = []"

text \<open>\<open>xs\<close> with the elements at which the mask is true replaced, in order, by those of \<open>vs\<close>.\<close>

fun put :: "bool list \<Rightarrow> 'a list \<Rightarrow> 'a list \<Rightarrow> 'a list" where
  "put (b # bs) (x # xs) vs =
     (if b then (case vs of [] \<Rightarrow> x # put bs xs [] | v # vs' \<Rightarrow> v # put bs xs vs')
      else x # put bs xs vs)"
| "put _ xs _ = xs"

definition fill :: "bool list \<Rightarrow> 'a list \<Rightarrow> 'a \<Rightarrow> 'a list" where
  "fill bs xs v = map2 (\<lambda>b x. if b then v else x) bs xs"

definition count_true :: "bool list \<Rightarrow> nat" where
  "count_true bs = length (filter (\<lambda>b. b) bs)"

text \<open>
  A boolean mask of dimension 0 puts a new first axis of length 1 (true) or 0 (false) in
  front of the array it indexes, so \<^verbatim>\<open>a[m]\<close> can have two dimensions. The values that
  indexing returns, and what arithmetic makes of them, have one of the shapes \<open>()\<close>, \<open>(n,)\<close>,
  \<open>(1, n)\<close> and \<open>(0, n)\<close>.
\<close>

datatype 'a ix = I0 'a | I1 "'a list" | Row "'a list" | NoRow nat

text \<open>
  \<^verbatim>\<open>a[m]\<close> for a boolean array \<open>m\<close>. A 0-d mask on a 0-d array gives an array of shape (1,)
  or (0,), on a 1-d array one of shape (1, n) or (0, n); a 1-d mask must have the length
  of the array; a 1-d mask on a 0-d array is "too many indices".
\<close>

fun getitem :: "'a nd \<Rightarrow> bool nd \<Rightarrow> error + 'a ix" where
  "getitem (A0 x) (A0 b) = Inr (I1 (if b then [x] else []))"
| "getitem (A1 xs) (A1 bs) =
     (if length bs = length xs then Inr (I1 (sel bs xs)) else Inl IndexError)"
| "getitem (A0 x) (A1 bs) = Inl IndexError"
| "getitem (A1 xs) (A0 b) = Inr (if b then Row xs else NoRow (length xs))"

text \<open>Two axis lengths broadcast when they are equal or one of them is 1.\<close>

definition bdim :: "nat \<Rightarrow> nat \<Rightarrow> nat option" where
  "bdim m n = (if m = n then Some m else if m = 1 then Some n else if n = 1 then Some m else None)"

definition zipb :: "('a \<Rightarrow> 'b \<Rightarrow> 'c) \<Rightarrow> 'a list \<Rightarrow> 'b list \<Rightarrow> error + 'c list" where
  "zipb f xs ys =
     (if length xs = length ys then Inr (map2 f xs ys)
      else if length xs = 1 then Inr (map (f (hd xs)) ys)
      else if length ys = 1 then Inr (map (\<lambda>x. f x (hd ys)) xs)
      else Inl ValueError)"

fun norow :: "nat option \<Rightarrow> error + 'a ix" where
  "norow None = Inl ValueError"
| "norow (Some n) = Inr (NoRow n)"

text \<open>
  Element-wise binary operations on such values: shapes are aligned at the last axis, so
  the length of a 1-d operand meets the second axis of a 2-d one.
\<close>

fun ibop :: "('a \<Rightarrow> 'b \<Rightarrow> 'c) \<Rightarrow> 'a ix \<Rightarrow> 'b ix \<Rightarrow> error + 'c ix" where
  "ibop f (I0 x) (I0 y) = Inr (I0 (f x y))"
| "ibop f (I0 x) (I1 ys) = Inr (I1 (map (f x) ys))"
| "ibop f (I0 x) (Row ys) = Inr (Row (map (f x) ys))"
| "ibop f (I0 x) (NoRow n) = Inr (NoRow n)"
| "ibop f (I1 xs) (I0 y) = Inr (I1 (map (\<lambda>x. f x y) xs))"
| "ibop f (Row xs) (I0 y) = Inr (Row (map (\<lambda>x. f x y) xs))"
| "ibop f (NoRow m) (I0 y) = Inr (NoRow m)"
| "ibop f (I1 xs) (I1 ys) = bnd (zipb f xs ys) (\<lambda>zs. Inr (I1 zs))"
| "ibop f (I1 xs) (Row ys) = bnd (zipb f xs ys) (\<lambda>zs. Inr (Row zs))"
| "ibop f (Row xs) (I1 ys) = bnd (zipb f xs ys) (\<lambda>zs. Inr (Row zs))"
| "ibop f (Row xs) (Row ys) = bnd (zipb f xs ys) (\<lambda>zs. Inr (Row zs))"
| "ibop f (I1 xs) (NoRow n) = norow (bdim (length xs) n)"
| "ibop f (Row xs) (NoRow n) = norow (bdim (length xs) n)"
| "ibop f (NoRow m) (I1 ys) = norow (bdim m (length ys))"
| "ibop f (NoRow m) (Row ys) = norow (bdim m (length ys))"
| "ibop f (NoRow m) (NoRow n) = norow (bdim m n)"

definition ix2 :: "('a \<Rightarrow> 'b \<Rightarrow> 'c) \<Rightarrow> error + 'a ix \<Rightarrow> error + 'b ix \<Rightarrow> error + 'c ix" where
  "ix2 f a b = bnd a (\<lambda>x. bnd b (\<lambda>y. ibop f x y))"

definition ix1 :: "('a \<Rightarrow> 'b) \<Rightarrow> error + 'a ix \<Rightarrow> error + 'b ix" where
  "ix1 f a = bnd a (\<lambda>x. Inr (map_ix f x))"

text \<open>A Python float literal, and a 0-d or 1-d array, as operands of such an operation.\<close>

definition isc :: "real \<Rightarrow> error + fl ix" where
  "isc r = Inr (I0 (Fin r))"

fun ix_of_nd :: "'a nd \<Rightarrow> 'a ix" where
  "ix_of_nd (A0 x) = I0 x"
| "ix_of_nd (A1 xs) = I1 xs"

definition ix_of :: "error + 'a nd \<Rightarrow> error + 'a ix" where
  "ix_of a = bnd a (\<lambda>x. Inr (ix_of_nd x))"

definition ix_add :: "error + fl ix \<Rightarrow> error + fl ix \<Rightarrow> error + fl ix" where
  "ix_add = ix2 fadd"

definition ix_sub :: "error + fl ix \<Rightarrow> error + fl ix \<Rightarrow> error + fl ix" where
  "ix_sub = ix2 fsub"

definition ix_mul :: "error + fl ix \<Rightarrow> error + fl ix \<Rightarrow> error + fl ix" where
  "ix_mul = ix2 fmul"

definition ix_div :: "error + fl ix \<Rightarrow> error + fl ix \<Rightarrow> error + fl ix" where
  "ix_div = ix2 fdiv"

definition ix_log :: "error + fl ix \<Rightarrow> error + fl ix" where
  "ix_log = ix1 flog"

definition ix_arctan :: "error + fl ix \<Rightarrow> error + fl ix" where
  "ix_arctan = ix1 farctan"

definition ix_pow :: "error + fl ix \<Rightarrow> real \<Rightarrow> error + fl ix" where
  "ix_pow a e = ix1 (\<lambda>x. fpow x e) a"

text \<open>
  \<^verbatim>\<open>a[m] = v\<close>: the array after the assignment. With a mask of the dimension of the array
  numpy takes a value of at most one dimension: a single element is repeated, otherwise
  there must be one element for every true position. With a 0-d mask on a 1-d array the
  value is broadcast to the shape (1, n) or (0, n) of \<^verbatim>\<open>a[m]\<close>.
\<close>

definition set_full :: "'a \<Rightarrow> bool \<Rightarrow> 'a list \<Rightarrow> error + 'a nd" where
  "set_full x b vs =
     (if b then (if length vs = 1 then Inr (A0 (hd vs)) else Inl ValueError)
      else (if length vs \<le> 1 then Inr (A0 x) else Inl ValueError))"

definition set_row :: "'a list \<Rightarrow> bool \<Rightarrow> 'a list \<Rightarrow> error + 'a nd" where
  "set_row xs b vs =
     (if length vs = length xs then Inr (A1 (if b then vs else xs))
      else if length vs = 1 then Inr (A1 (if b then map (\<lambda>x. hd vs) xs else xs))
      else Inl ValueError)"

fun setitem :: "'a nd \<Rightarrow> bool nd \<Rightarrow> 'a ix \<Rightarrow> error + 'a nd" where
  "setitem (A0 x) (A0 b) (I0 v) = Inr (A0 (if b then v else x))"
| "setitem (A0 x) (A0 b) (I1 vs) = set_full x b vs"
| "setitem (A0 x) (A0 b) (Row vs) = Inl TypeError"
| "setitem (A0 x) (A0 b) (NoRow n) = Inl TypeError"
| "setitem (A1 xs) (A1 bs) (I0 v) =
     (if length bs = length xs then Inr (A1 (fill bs xs v)) else Inl IndexError)"
| "setitem (A1 xs) (A1 bs) (I1 vs) =
     (if length bs \<noteq> length xs then Inl IndexError
      else if length vs = 1 then Inr (A1 (fill bs xs (hd vs)))
      else if length vs = count_true bs then Inr (A1 (put bs xs vs))
      else Inl ValueError)"
| "setitem (A1 xs) (A1 bs) (Row vs) =
     (if length bs \<noteq> length xs then Inl IndexError else Inl TypeError)"
| "setitem (A1 xs) (A1 bs) (NoRow n) =
     (if length bs \<noteq> length xs then Inl IndexError else Inl TypeError)"
| "setitem (A1 xs) (A0 b) (I0 v) = Inr (A1 (if b then map (\<lambda>x. v) xs else xs))"
| "setitem (A1 xs) (A0 b) (I1 vs) = set_row xs b vs"
| "setitem (A1 xs) (A0 b) (Row vs) = set_row xs b vs"
| "setitem (A1 xs) (A0 b) (NoRow n) =
     (if \<not> b \<and> (n = length xs \<or> n = 1) then Inr (A1 xs) else Inl ValueError)"
| "setitem (A0 x) (A1 bs) v = Inl IndexError"

definition np_getitem :: "error + 'a nd \<Rightarrow> error + bool nd \<Rightarrow> error + 'a ix" where
  "np_getitem a m = bnd a (\<lambda>x. bnd m (\<lambda>b. getitem x b))"

text \<open>Python evaluates the right-hand side first, then the target, then the subscript.\<close>

definition np_setitem :: "error + 'a nd \<Rightarrow> error + bool nd \<Rightarrow> error + 'a ix \<Rightarrow> error + 'a nd" where
  "np_setitem a m v = bnd v (\<lambda>w. bnd a (\<lambda>x. bnd m (\<lambda>b. setitem x b w)))"

section \<open>The module\<close>

text \<open>The module constants: von Karman's constant and the acceleration of gravity.\<close>

definition k :: real where
  "k = 0.4"

definition gravity :: real where
  "gravity = 9.8"

text \<open>
  \<^verbatim>\<open>calc_Psi_H(zoL)\<close>. \<^verbatim>\<open>Psi_H\<close> is a fresh array of zeros that the two masked assignments
  fill; the argument is only read.
\<close>

definition calc_Psi_H :: "ndarray \<Rightarrow> error + ndarray" where
  "calc_Psi_H zoL =
     bnd (Inr (np_zeros (shape zoL))) (\<lambda>Psi_H.
     let a = 6.1; b = 2.5 in
     bnd (np_setitem (Inr Psi_H) (np_ge (Inr zoL) (sc 0))
            (ix_mul (isc (- a))
               (ix_log (ix_add (np_getitem (Inr zoL) (np_ge (Inr zoL) (sc 0)))
                  (ix_pow (ix_add (isc 1)
                     (ix_pow (np_getitem (Inr zoL) (np_ge (Inr zoL) (sc 0))) b)) (1 / b))))))
       (\<lambda>Psi_H.
     bnd (np_neg (Inr zoL)) (\<lambda>y.
     let c = 0.33; d = 0.057; n = 0.78 in
     np_setitem (Inr Psi_H) (np_lt (Inr zoL) (sc 0))
       (ix_mul (isc ((1 - d) / n))
          (ix_log (ix_div (ix_add (isc c)
             (ix_pow (np_getitem (Inr y) (np_lt (Inr zoL) (sc 0))) n)) (isc c)))))))"

text \<open>
  \<^verbatim>\<open>calc_Psi_M(zoL)\<close>. \<open>x\<close> is computed from \<open>y\<close> before \<open>y\<close> is limited to \<open>b ** -3\<close>,
  in the order of the source.
\<close>

definition calc_Psi_M :: "ndarray \<Rightarrow> error + ndarray" where
  "calc_Psi_M zoL =
     bnd (Inr (np_zeros (shape zoL))) (\<lambda>Psi_M.
     let a = 6.1; b = 2.5 in
     bnd (np_setitem (Inr Psi_M) (np_ge (Inr zoL) (sc 0))
            (ix_mul (isc (- a))
               (ix_log (ix_add (np_getitem (Inr zoL) (np_ge (Inr zoL) (sc 0)))
                  (ix_pow (ix_add (isc 1)
                     (ix_pow (np_getitem (Inr zoL) (np_ge (Inr zoL) (sc 0))) b)) (1 / b))))))
       (\<lambda>Psi_M.
     bnd (np_maximum (np_neg (Inr zoL)) (sc 0)) (\<lambda>y.
     let a = 0.33; b = 0.41 in
     bnd (np_pow (np_div (Inr y) (sc a)) 0.333333) (\<lambda>x.
     bnd (np_add (np_neg (np_log (sc a))) (sc (3 powr 0.5 * b * a powr 0.333333 * pi / 6)))
       (\<lambda>Psi_0.
     bnd (np_minimum (Inr y) (sc (b powr (- 3)))) (\<lambda>y.
     bnd (np_lt (Inr zoL) (sc 0)) (\<lambda>i.
     np_setitem (Inr Psi_M) (Inr i)
       (ix_add
          (ix_add
             (ix_add
                (ix_sub (ix_log (ix_add (isc a) (np_getitem (Inr y) (Inr i))))
                   (ix_mul (isc (3 * b)) (ix_pow (np_getitem (Inr y) (Inr i)) 0.333333)))
                (ix_mul (isc (b * a powr 0.333333 / 2))
                   (ix_log (ix_div (ix_pow (ix_add (isc 1) (np_getitem (Inr x) (Inr i))) 2)
                      (ix_add (ix_sub (isc 1) (np_getitem (Inr x) (Inr i)))
                         (ix_pow (np_getitem (Inr x) (Inr i)) 2))))))
             (ix_mul (isc (3 powr 0.5 * b * a powr 0.333333))
                (ix_arctan (ix_div (ix_sub (ix_mul (isc 2) (np_getitem (Inr x) (Inr i))) (isc 1))
                   (isc (3 powr 0.5))))))
          (ix_of (Inr Psi_0))))))))))"

text \<open>
  \<^verbatim>\<open>calc_L(ustar, T_A_K, rho, c_p, H, LE)\<close>. Which elements of \<open>L\<close> receive a value is
  decided by comparing the computed \<open>Hv\<close> with 0, and rounding can leave a sum different
  from 0 that is 0 in exact arithmetic. So \<open>calc_L\<close> is written over an arbitrary
  arithmetic on the elements: the record names the operations on doubles that the
  function body uses. The arithmetic of the first section is the instance \<open>exact\<close>;
  IEEE arithmetic with rounding is another.
\<close>

record 'a arith =
  a_lit :: "real \<Rightarrow> 'a"
  a_inf :: 'a
  a_add :: "'a \<Rightarrow> 'a \<Rightarrow> 'a"
  a_mul :: "'a \<Rightarrow> 'a \<Rightarrow> 'a"
  a_div :: "'a \<Rightarrow> 'a \<Rightarrow> 'a"
  a_neg :: "'a \<Rightarrow> 'a"
  a_pow :: "'a \<Rightarrow> real \<Rightarrow> 'a"
  a_ne :: "'a \<Rightarrow> 'a \<Rightarrow> bool"

definition exact :: "fl arith" where
  "exact = \<lparr>a_lit = Fin, a_inf = PInf, a_add = fadd, a_mul = fmul, a_div = fdiv, a_neg = fneg,
     a_pow = fpow, a_ne = fne\<rparr>"

text \<open>
  \<^verbatim>\<open>calc_lambda\<close> lives in \<^verbatim>\<open>meteo_utils\<close>, outside this module: it is the parameter \<open>lam\<close>,
  the latent heat of vaporisation (MJ/kg) of one temperature, applied element by element.
  \<open>L\<close> has the shape of \<open>ustar\<close>, the mask \<open>i\<close> that of \<open>Hv\<close>; \<open>ustar\<close>, \<open>L_const\<close>, \<open>Hv\<close>,
  \<open>rho\<close> and \<open>c_p\<close> are indexed with the mask, in this order, and \<open>L\<close> is assigned through it.
\<close>

definition calc_L ::
  "'a arith \<Rightarrow> ('a \<Rightarrow> 'a) \<Rightarrow> 'a nd \<Rightarrow> 'a nd \<Rightarrow> 'a nd \<Rightarrow> 'a nd \<Rightarrow> 'a nd \<Rightarrow> 'a nd \<Rightarrow> error + 'a nd" where
  "calc_L ar lam ustar T_A_K rho c_p H LE =
     bnd (np2 (a_mul ar) (np1 lam (Inr T_A_K)) (Inr (A0 (a_lit ar 1000000)))) (\<lambda>Lambda.
     bnd (np2 (a_div ar) (Inr LE) (Inr Lambda)) (\<lambda>E.
     bnd (np2 (a_add ar) (Inr H)
            (np2 (a_mul ar)
               (np2 (a_mul ar) (np2 (a_mul ar) (Inr (A0 (a_lit ar 0.61))) (Inr T_A_K)) (Inr c_p))
               (Inr E)))
       (\<lambda>Hv.
     bnd (np2 (a_mul ar) (Inr (np_full (shape ustar) (a_lit ar 1))) (Inr (A0 (a_inf ar)))) (\<lambda>L.
     bnd (np2 (a_ne ar) (Inr Hv) (Inr (A0 (a_lit ar 0)))) (\<lambda>i.
     bnd (np2 (a_div ar) (Inr (A0 (a_mul ar (a_lit ar k) (a_lit ar gravity)))) (Inr T_A_K))
       (\<lambda>L_const.
     np_setitem (Inr L) (Inr i)
       (ix2 (a_div ar)
          (ix1 (a_neg ar) (ix1 (\<lambda>x. a_pow ar x 3) (np_getitem (Inr ustar) (Inr i))))
          (ix2 (a_mul ar) (np_getitem (Inr L_const) (Inr i))
             (ix2 (a_div ar) (np_getitem (Inr Hv) (Inr i))
                (ix2 (a_mul ar) (np_getitem (Inr rho) (Inr i))
                   (np_getitem (Inr c_p) (Inr i))))))))))))"

subsection \<open>Arguments that may be Python floats\<close>

text \<open>
  \<^verbatim>\<open>calc_richardson\<close>, \<^verbatim>\<open>calc_u_C\<close>, \<^verbatim>\<open>calc_u_C_star\<close>, \<^verbatim>\<open>calc_A_Goudriaan\<close> and
  \<^verbatim>\<open>calc_u_Goudriaan\<close> compute on their arguments as they are passed and call \<^verbatim>\<open>np.asarray\<close>
  on the result only. An argument is a Python float or a numpy value (an array or a numpy
  scalar, which behaves as a 0-d array). An operation on two Python floats is Python's and
  gives a Python float; as soon as one operand is a numpy value the operation is numpy's,
  and so is the result.
\<close>

datatype arg = PyF fl | Np ndarray

text \<open>\<^verbatim>\<open>np.asarray\<close> of such a value.\<close>

fun asarray :: "arg \<Rightarrow> ndarray" where
  "asarray (PyF x) = A0 x"
| "asarray (Np a) = a"

text \<open>
  Python's float division raises on a zero divisor. Python's \<^verbatim>\<open>x ** n\<close> for an integer
  \<open>n\<close> raises only on a zero raised to a negative power (overflow is not modelled).
\<close>

definition float_truediv :: "fl \<Rightarrow> fl \<Rightarrow> error + fl" where
  "float_truediv x y = (if is_zero y then Inl ZeroDivisionError else Inr (fdiv x y))"


fun pbop :: "(fl \<Rightarrow> fl \<Rightarrow> error + fl) \<Rightarrow> (fl \<Rightarrow> fl \<Rightarrow> fl) \<Rightarrow> arg \<Rightarrow> arg \<Rightarrow> error + arg" where
  "pbop pf nf (PyF x) (PyF y) = bnd (pf x y) (\<lambda>z. Inr (PyF z))"
| "pbop pf nf (PyF x) (Np b) = bnd (bop nf (A0 x) b) (\<lambda>c. Inr (Np c))"
| "pbop pf nf (Np a) (PyF y) = bnd (bop nf a (A0 y)) (\<lambda>c. Inr (Np c))"
| "pbop pf nf (Np a) (Np b) = bnd (bop nf a b) (\<lambda>c. Inr (Np c))"


definition py2 ::
  "(fl \<Rightarrow> fl \<Rightarrow> error + fl) \<Rightarrow> (fl \<Rightarrow> fl \<Rightarrow> fl) \<Rightarrow> error + arg \<Rightarrow> error + arg \<Rightarrow> error + arg" where
  "py2 pf nf a b = bnd a (\<lambda>x. bnd b (\<lambda>y. pbop pf nf x y))"

definition py_add :: "error + arg \<Rightarrow> error + arg \<Rightarrow> error + arg" where
  "py_add = py2 (\<lambda>x y. Inr (fadd x y)) fadd"

definition py_sub :: "error + arg \<Rightarrow> error + arg \<Rightarrow> error + arg" where
  "py_sub = py2 (\<lambda>x y. Inr (fsub x y)) fsub"

definition py_mul :: "error + arg \<Rightarrow> error + arg \<Rightarrow> error + arg" where
  "py_mul = py2 (\<lambda>x y. Inr (fmul x y)) fmul"

definition py_div :: "error + arg \<Rightarrow> error + arg \<Rightarrow> error + arg" where
  "py_div = py2 float_truediv fdiv"



text \<open>\<^verbatim>\<open>np.log\<close> and \<^verbatim>\<open>np.exp\<close> are numpy's on every argument.\<close>

definition py_log :: "error + arg \<Rightarrow> error + arg" where
  "py_log a = bnd a (\<lambda>x. Inr (Np (map_nd flog (asarray x))))"


text \<open>A Python float constant: a literal or a constant of the module.\<close>

definition pyc :: "real \<Rightarrow> error + arg" where
  "pyc r = Inr (PyF (Fin r))"


text \<open>\<^verbatim>\<open>calc_u_C(u_friction, h_C, d_0, z_0M)\<close>.\<close>

definition calc_u_C :: "arg \<Rightarrow> arg \<Rightarrow> arg \<Rightarrow> arg \<Rightarrow> error + ndarray" where
  "calc_u_C u_friction h_C d_0 z_0M =
     bnd (py_div
            (py_mul (py_log (py_div (py_sub (Inr h_C) (Inr d_0)) (Inr z_0M))) (Inr u_friction))
            (pyc k))
       (\<lambda>u_C. Inr (asarray u_C))"

text \<open>
  \<^verbatim>\<open>calc_u_C_star(u_friction, h_C, d_0, z_0M, L=float('inf'))\<close>; a call that leaves \<open>L\<close> out
  passes \<open>L_default\<close>. \<^verbatim>\<open>calc_Psi_M\<close> converts its argument with \<^verbatim>\<open>np.asarray\<close>.
\<close>

definition L_default :: arg where
  "L_default = PyF PInf"

definition calc_u_C_star :: "arg \<Rightarrow> arg \<Rightarrow> arg \<Rightarrow> arg \<Rightarrow> arg \<Rightarrow> error + ndarray" where
  "calc_u_C_star u_friction h_C d_0 z_0M L =
     bnd (bnd (py_div (py_sub (Inr h_C) (Inr d_0)) (Inr L)) (\<lambda>zoL. calc_Psi_M (asarray zoL)))
       (\<lambda>Psi_M.
     bnd (bnd (py_div (Inr z_0M) (Inr L)) (\<lambda>zoL. calc_Psi_M (asarray zoL))) (\<lambda>Psi_M0.
     bnd (py_div
            (py_mul (Inr u_friction)
               (py_add
                  (py_sub (py_log (py_div (py_sub (Inr h_C) (Inr d_0)) (Inr z_0M)))
                     (Inr (Np Psi_M)))
                  (Inr (Np Psi_M0))))
            (pyc k))
       (\<lambda>u_C. Inr (asarray u_C))))"

subsection \<open>Fractional powers of Python floats\<close>
















subsection \<open>Friction velocity: arguments by reference\<close>

text \<open>
  \<^verbatim>\<open>calc_u_star\<close> assigns into \<open>L\<close> after \<^verbatim>\<open>np.asarray\<close>, which returns the very array it
  is given and makes a new 0-d array only of a Python float. So an argument is either a
  float or the address of an array in the heap, and a variable bound by \<^verbatim>\<open>np.asarray\<close>
  is either a new array of its own or a reference to the caller's.
\<close>

type_synonym addr = nat

type_synonym heap = "addr \<Rightarrow> ndarray"

datatype pyval = PyFloat fl | NdArray addr

datatype var = Tmp ndarray | Ref addr

fun np_asarray :: "pyval \<Rightarrow> var" where
  "np_asarray (PyFloat x) = Tmp (A0 x)"
| "np_asarray (NdArray p) = Ref p"

fun rd :: "heap \<Rightarrow> var \<Rightarrow> error + ndarray" where
  "rd h (Tmp a) = Inr a"
| "rd h (Ref p) = Inr (h p)"

text \<open>The array a variable names is overwritten in place.\<close>

fun wr :: "heap \<Rightarrow> var \<Rightarrow> ndarray \<Rightarrow> var \<times> heap" where
  "wr h (Tmp a) a' = (Tmp a', h)"
| "wr h (Ref p) a' = (Ref p, h(p := a'))"

text \<open>
  \<^verbatim>\<open>calc_u_star(u, z_u, L, d_0, z_0M, useRi=False)\<close>: the friction velocity and the heap
  after the call.
\<close>

definition calc_u_star ::
  "heap \<Rightarrow> pyval \<Rightarrow> pyval \<Rightarrow> pyval \<Rightarrow> pyval \<Rightarrow> pyval \<Rightarrow> bool \<Rightarrow> error + (ndarray \<times> heap)" where
  "calc_u_star h u0 z_u0 L0 d_00 z_0M0 useRi =
     (let u = np_asarray u0; z_u = np_asarray z_u0; L = np_asarray L0;
          d_0 = np_asarray d_00; z_0M = np_asarray z_0M0
      in
      if useRi then
        bnd (bnd (rd h L) calc_Psi_M) (\<lambda>Psi_M.
        bnd (bnd (np_mul (np_div (rd h L) (np_sub (rd h z_u) (rd h d_0))) (rd h z_0M))
               calc_Psi_M) (\<lambda>Psi_M0.
        bnd (np_div (np_mul (rd h u) (sc k))
               (np_add (np_sub (np_log (np_div (np_sub (rd h z_u) (rd h d_0)) (rd h z_0M)))
                  (Inr Psi_M)) (Inr Psi_M0)))
          (\<lambda>u_star. Inr (u_star, h))))
      else
        bnd (np_setitem (rd h L) (np_eq (rd h L) (sc 0)) (isc (1 / 10 ^ 36))) (\<lambda>L'.
        case wr h L L' of (L, h) \<Rightarrow>
        bnd (bnd (np_div (np_sub (rd h z_u) (rd h d_0)) (rd h L)) calc_Psi_M) (\<lambda>Psi_M.
        bnd (bnd (np_div (rd h z_0M) (rd h L)) calc_Psi_M) (\<lambda>Psi_M0.
        bnd (np_div (np_mul (rd h u) (sc k))
               (np_add (np_sub (np_log (np_div (np_sub (rd h z_u) (rd h d_0)) (rd h z_0M)))
                  (Inr Psi_M)) (Inr Psi_M0)))
          (\<lambda>u_star. Inr (u_star, h))))))"

section \<open>The formulas at one element\<close>

text \<open>
  What the array code computes at a single element, written on one value. The lemmas
  \<open>calc_Psi_H_eq\<close> and \<open>calc_Psi_M_eq\<close> below show that the masked assignments of the two
  correction factors compute exactly these, element by element.
\<close>

definition Psi_stable :: "fl \<Rightarrow> fl" where
  "Psi_stable z = fmul (Fin (- 6.1)) (flog (fadd z (fpow (fadd (Fin 1) (fpow z 2.5)) (1 / 2.5))))"

definition Psi_H_unstable :: "fl \<Rightarrow> fl" where
  "Psi_H_unstable z =
     fmul (Fin ((1 - 0.057) / 0.78)) (flog (fdiv (fadd (Fin 0.33) (fpow (fneg z) 0.78)) (Fin 0.33)))"

definition Psi_H_pt :: "fl \<Rightarrow> fl" where
  "Psi_H_pt z =
     (if flt z (Fin 0) then Psi_H_unstable z else if fge z (Fin 0) then Psi_stable z else Fin 0)"

definition Psi_M_unstable :: "fl \<Rightarrow> fl" where
  "Psi_M_unstable z =
     (let y0 = fmax (fneg z) (Fin 0);
          x = fpow (fdiv y0 (Fin 0.33)) 0.333333;
          Psi_0 = fadd (fneg (flog (Fin 0.33)))
                    (Fin (3 powr 0.5 * 0.41 * 0.33 powr 0.333333 * pi / 6));
          y = fmin y0 (Fin (0.41 powr (- 3)))
      in fadd
           (fadd
              (fadd
                 (fsub (flog (fadd (Fin 0.33) y)) (fmul (Fin (3 * 0.41)) (fpow y 0.333333)))
                 (fmul (Fin (0.41 * 0.33 powr 0.333333 / 2))
                    (flog (fdiv (fpow (fadd (Fin 1) x) 2) (fadd (fsub (Fin 1) x) (fpow x 2))))))
              (fmul (Fin (3 powr 0.5 * 0.41 * 0.33 powr 0.333333))
                 (farctan (fdiv (fsub (fmul (Fin 2) x) (Fin 1)) (Fin (3 powr 0.5))))))
           Psi_0)"

definition Psi_M_pt :: "fl \<Rightarrow> fl" where
  "Psi_M_pt z =
     (if flt z (Fin 0) then Psi_M_unstable z else if fge z (Fin 0) then Psi_stable z else Fin 0)"

text \<open>The virtual heat flux and the Monin-Obukhov length of one element.\<close>

definition Hv_pt :: "'a arith \<Rightarrow> ('a \<Rightarrow> 'a) \<Rightarrow> 'a \<Rightarrow> 'a \<Rightarrow> 'a \<Rightarrow> 'a \<Rightarrow> 'a" where
  "Hv_pt ar lam T_A_K c_p H LE =
     (let Lambda = a_mul ar (lam T_A_K) (a_lit ar 1000000);
          E = a_div ar LE Lambda
      in a_add ar H (a_mul ar (a_mul ar (a_mul ar (a_lit ar 0.61) T_A_K) c_p) E))"

definition L_pt :: "'a arith \<Rightarrow> ('a \<Rightarrow> 'a) \<Rightarrow> 'a \<Rightarrow> 'a \<Rightarrow> 'a \<Rightarrow> 'a \<Rightarrow> 'a \<Rightarrow> 'a \<Rightarrow> 'a" where
  "L_pt ar lam ustar T_A_K rho c_p H LE =
     (let Hv = Hv_pt ar lam T_A_K c_p H LE
      in if a_ne ar Hv (a_lit ar 0)
         then a_div ar (a_neg ar (a_pow ar ustar 3))
                (a_mul ar (a_div ar (a_mul ar (a_lit ar k) (a_lit ar gravity)) T_A_K)
                   (a_div ar Hv (a_mul ar rho c_p)))
         else a_mul ar (a_lit ar 1) (a_inf ar))"






text \<open>What the assignment \<^verbatim>\<open>L[L == 0.0] = 1e-36\<close> makes of one element.\<close>

definition repl0 :: "fl \<Rightarrow> fl" where
  "repl0 x = (if feq x (Fin 0) then Fin (1 / 10 ^ 36) else x)"

definition u_star_pt :: "bool \<Rightarrow> fl \<Rightarrow> fl \<Rightarrow> fl \<Rightarrow> fl \<Rightarrow> fl \<Rightarrow> fl" where
  "u_star_pt useRi u z_u L d_0 z_0M =
     (if useRi then
        fdiv (fmul u (Fin k))
          (fadd (fsub (flog (fdiv (fsub z_u d_0) z_0M)) (Psi_M_pt L))
             (Psi_M_pt (fmul (fdiv L (fsub z_u d_0)) z_0M)))
      else
        fdiv (fmul u (Fin k))
          (fadd (fsub (flog (fdiv (fsub z_u d_0) z_0M)) (Psi_M_pt (fdiv (fsub z_u d_0) (repl0 L))))
             (Psi_M_pt (fdiv z_0M (repl0 L)))))"

section \<open>Shapes and broadcasting\<close>

text \<open>
  An argument fits the length \<open>N\<close> when it is 0-d or has \<open>N\<close> elements; \<open>elt a i\<close> is the
  element a broadcast puts at index \<open>i\<close>; \<open>bc N p g\<close> is the array (or, for \<open>p\<close> false,
  the 0-d array) with the elements \<open>g i\<close>.
\<close>

fun is_arr :: "'a nd \<Rightarrow> bool" where
  "is_arr (A0 x) = False"
| "is_arr (A1 xs) = True"

fun elt :: "'a nd \<Rightarrow> nat \<Rightarrow> 'a" where
  "elt (A0 x) i = x"
| "elt (A1 xs) i = xs ! i"

definition fits :: "nat \<Rightarrow> 'a nd \<Rightarrow> bool" where
  "fits N a = (case a of A0 x \<Rightarrow> True | A1 xs \<Rightarrow> length xs = N)"

definition bc :: "nat \<Rightarrow> bool \<Rightarrow> (nat \<Rightarrow> 'a) \<Rightarrow> 'a nd" where
  "bc N p g = (if p then A1 (map g [0..<N]) else A0 (g 0))"

definition rep :: "nat \<Rightarrow> 'a nd \<Rightarrow> bool \<Rightarrow> (nat \<Rightarrow> 'a) \<Rightarrow> bool" where
  "rep N a p g = (a = bc N p g \<and> (p \<or> (\<forall>i. g i = g 0)))"

definition rrep :: "nat \<Rightarrow> error + 'a nd \<Rightarrow> bool \<Rightarrow> (nat \<Rightarrow> 'a) \<Rightarrow> bool" where
  "rrep N r p g = (\<exists>a. r = Inr a \<and> rep N a p g)"

text \<open>
  The same for the functions whose arguments may be Python floats: which arguments are
  Python floats, which of those are a zero or a negative finite number, and the argument
  that the scalar-only call gets at index \<open>i\<close> (a Python float stays what it is, an array
  gives its \<open>i\<close>-th element, a numpy scalar).
\<close>

fun is_pyf :: "arg \<Rightarrow> bool" where
  "is_pyf (PyF x) = True"
| "is_pyf (Np a) = False"

fun py_zero :: "arg \<Rightarrow> bool" where
  "py_zero (PyF x) = is_zero x"
| "py_zero (Np a) = False"

fun py_negative :: "arg \<Rightarrow> bool" where
  "py_negative (PyF x) = (is_finite x \<and> rv x < 0)"
| "py_negative (Np a) = False"

fun pick :: "arg \<Rightarrow> nat \<Rightarrow> arg" where
  "pick (PyF x) i = PyF x"
| "pick (Np a) i = Np (A0 (elt a i))"



text \<open>
  \<open>prep N r p q g c\<close>: unless a division of Python floats by zero has been met (\<open>c\<close> false,
  and then \<open>r\<close> is the ZeroDivisionError), \<open>r\<close> is a value with the elements \<open>g i\<close>, an
  array if \<open>p\<close> and a Python float if \<open>q\<close>. \<open>crep\<close> is the same for the array that a
  function returns.
\<close>

definition prep :: "nat \<Rightarrow> error + arg \<Rightarrow> bool \<Rightarrow> bool \<Rightarrow> (nat \<Rightarrow> fl) \<Rightarrow> bool \<Rightarrow> bool" where
  "prep N r p q g c =
     (if c then (\<exists>v. r = Inr v \<and> rep N (asarray v) p g \<and> q = is_pyf v)
      else r = Inl ZeroDivisionError)"






text \<open>The array an argument of \<^verbatim>\<open>calc_u_star\<close> denotes, and the heap the call leaves.\<close>

fun val :: "heap \<Rightarrow> pyval \<Rightarrow> ndarray" where
  "val h (PyFloat x) = A0 x"
| "val h (NdArray p) = h p"

fun heap_after :: "heap \<Rightarrow> pyval \<Rightarrow> heap" where
  "heap_after h (PyFloat x) = h"
| "heap_after h (NdArray p) = h(p := map_nd repl0 (h p))"

text \<open>Two arguments that are not the same array object.\<close>

fun no_alias :: "pyval \<Rightarrow> pyval \<Rightarrow> bool" where
  "no_alias (NdArray p) (NdArray q) = (p \<noteq> q)"
| "no_alias v w = True"

text \<open>A heap in which every address holds the array \<^verbatim>\<open>[0.0, 5.0]\<close>.\<close>

definition heap_L0 :: heap where
  "heap_L0 = (\<lambda>p. A1 [Fin 0, Fin 5])"



text \<open>A stand-in for \<^verbatim>\<open>calc_lambda\<close> in concrete evaluations: 2.45 MJ/kg at every temperature.\<close>

definition lam_test :: "fl \<Rightarrow> fl" where
  "lam_test T = Fin 2.45"

text \<open>
  The closed form of the unstable branch of \<^verbatim>\<open>calc_Psi_M\<close> as a function of \<open>x\<close> and of the
  limited \<open>y\<close>, with the constants \<open>a\<close>, \<open>b\<close> and the exponent as parameters; and the real
  function that carries its dependence on \<open>x\<close>.
\<close>

definition paulson :: "real \<Rightarrow> real" where
  "paulson x = ln (1 + x) - ln (1 - x + x\<^sup>2) / 2 + sqrt 3 * arctan ((2 * x - 1) / sqrt 3)"

definition unstable_expr :: "real \<Rightarrow> real \<Rightarrow> real \<Rightarrow> fl \<Rightarrow> fl \<Rightarrow> fl" where
  "unstable_expr a b e x y =
     fadd
       (fadd
          (fadd
             (fsub (flog (fadd (Fin a) y)) (fmul (Fin (3 * b)) (fpow y e)))
             (fmul (Fin (b * a powr e / 2))
                (flog (fdiv (fpow (fadd (Fin 1) x) 2) (fadd (fsub (Fin 1) x) (fpow x 2))))))
          (fmul (Fin (3 powr (1 / 2) * b * a powr e))
             (farctan (fdiv (fsub (fmul (Fin 2) x) (Fin 1)) (Fin (3 powr (1 / 2)))))))
       (fadd (fneg (flog (Fin a))) (Fin (3 powr (1 / 2) * b * a powr e * pi / 6)))"

section \<open>Evaluating the array operations\<close>

lemmas np_defs = np_add_def np_sub_def np_mul_def np_div_def np_maximum_def np_minimum_def
  np_ge_def np_lt_def np_eq_def np_neg_def np_log_def np_pow_def
  np2_def np1_def sc_def np_getitem_def np_setitem_def np_zeros_def
  ix_add_def ix_sub_def ix_mul_def ix_div_def ix_log_def ix_arctan_def ix_pow_def
  ix2_def ix1_def isc_def ix_of_def

lemma bnd_Inr [simp]: "bnd (Inr v) f = f v"
  by (simp add: bnd_def)

lemma bnd_Inl [simp]: "bnd (Inl e) f = Inl e"
  by (simp add: bnd_def)

lemma sel_map: "sel (map p zs) (map g zs) = map g (filter p zs)"
  by (induction zs) auto

lemma count_true_map: "count_true (map p zs) = length (filter p zs)"
  by (induction zs) (auto simp: count_true_def)

lemma put_map: "put (map p zs) (map g zs) (map h (filter p zs)) = map (\<lambda>z. if p z then h z else g z) zs"
  by (induction zs) auto

lemma fill_const: "fill (map p zs) (map g zs) v = map (\<lambda>z. if p z then v else g z) zs"
  by (induction zs) (auto simp: fill_def)

lemma fill_map:
  assumes "length (filter p zs) = 1"
  shows "fill (map p zs) (map g zs) (hd (map h (filter p zs))) = map (\<lambda>z. if p z then h z else g z) zs"
proof -
  from assms obtain w where w: "filter p zs = [w]"
    by (cases "filter p zs") auto
  have "z = w" if "z \<in> set zs" "p z" for z
  proof -
    from that have "z \<in> set (filter p zs)" by simp
    then show "z = w" by (simp add: w)
  qed
  then show ?thesis
    by (simp add: fill_const w cong: map_cong)
qed

lemma bop_map:
  "bop f (A1 (map g zs)) (A1 (map h zs)) = Inr (A1 (map (\<lambda>z. f (g z) (h z)) zs))"
  by (simp add: zip_map_map) (induction zs, auto)

lemma replicate_length_map: "replicate (length zs) v = map (\<lambda>_. v) zs"
  by (simp add: map_replicate_const)

lemma zipb_map:
  "zipb f (map g zs) (map h zs) = Inr (map (\<lambda>z. f (g z) (h z)) zs)"
  by (simp add: zipb_def zip_map_map) (induction zs, auto)

lemma ibop_map:
  "ibop f (I1 (map g zs)) (I1 (map h zs)) = Inr (I1 (map (\<lambda>z. f (g z) (h z)) zs))"
  by (simp add: zipb_map)

lemma getitem_map:
  "getitem (A1 (map g zs)) (A1 (map p zs)) = Inr (I1 (map g (filter p zs)))"
  by (simp add: sel_map)

lemma setitem_map:
  "setitem (A1 (map g zs)) (A1 (map p zs)) (I1 (map h (filter p zs))) =
     Inr (A1 (map (\<lambda>z. if p z then h z else g z) zs))"
  by (simp add: count_true_map put_map fill_map del: hd_map)

lemma setitem_map_const:
  "setitem (A1 (map g zs)) (A1 (map p zs)) (I0 v) =
     Inr (A1 (map (\<lambda>z. if p z then v else g z) zs))"
  by (simp add: fill_const)

lemmas nd_map_simps = bop_map ibop_map replicate_length_map getitem_map setitem_map
  setitem_map_const

lemma calc_Psi_H_map:
  "calc_Psi_H (A1 (map g zs)) = Inr (A1 (map (\<lambda>z. Psi_H_pt (g z)) zs))"
  by (simp add: calc_Psi_H_def np_defs nd_map_simps Psi_H_pt_def Psi_H_unstable_def Psi_stable_def
      Let_def o_def del: bop.simps(4) ibop.simps(8) getitem.simps(2) setitem.simps(5,6))

lemma calc_Psi_H_A0: "calc_Psi_H (A0 z) = Inr (A0 (Psi_H_pt z))"
  by (simp add: calc_Psi_H_def np_defs Psi_H_pt_def Psi_H_unstable_def Psi_stable_def Let_def
      set_full_def zipb_def)

lemma calc_Psi_M_map:
  "calc_Psi_M (A1 (map g zs)) = Inr (A1 (map (\<lambda>z. Psi_M_pt (g z)) zs))"
  by (simp add: calc_Psi_M_def np_defs nd_map_simps Psi_M_pt_def Psi_M_unstable_def Psi_stable_def
      Let_def o_def del: bop.simps(4) ibop.simps(8) getitem.simps(2) setitem.simps(5,6))

lemma calc_Psi_M_A0: "calc_Psi_M (A0 z) = Inr (A0 (Psi_M_pt z))"
  by (simp add: calc_Psi_M_def np_defs Psi_M_pt_def Psi_M_unstable_def Psi_stable_def Let_def
      set_full_def zipb_def)

lemma calc_Psi_M_eq: "calc_Psi_M a = Inr (map_nd Psi_M_pt a)"
  using calc_Psi_M_map [of "\<lambda>z. z"] by (cases a) (simp_all add: calc_Psi_M_A0)

lemma calc_Psi_H_eq: "calc_Psi_H a = Inr (map_nd Psi_H_pt a)"
  using calc_Psi_H_map [of "\<lambda>z. z"] by (cases a) (simp_all add: calc_Psi_H_A0)

lemma elems_map_nd: "elems (map_nd f a) = map f (elems a)"
  by (cases a) simp_all

lemma shape_map_nd: "shape (map_nd f a) = shape a"
  by (cases a) simp_all

lemmas ar_defs = np2_def np1_def np_getitem_def np_setitem_def ix2_def ix1_def

lemma map_index: "map f xs = map (\<lambda>j. f (xs ! j)) [0..<length xs]"
  by (rule nth_equalityI) simp_all

lemma map2_index:
  "length ys = length xs \<Longrightarrow> map2 f xs ys = map (\<lambda>j. f (xs ! j) (ys ! j)) [0..<length xs]"
  by (rule nth_equalityI) simp_all

lemma zipb_single_r: "zipb f xs [y] = Inr (map (\<lambda>x. f x y) xs)"
  by (cases xs) (auto simp: zipb_def length_Suc_conv)

lemma zipb_single_l: "zipb f [x] ys = Inr (map (f x) ys)"
  by (cases ys) (auto simp: zipb_def length_Suc_conv)

lemma zipb_same: "length xs = length ys \<Longrightarrow> zipb f xs ys = Inr (map2 f xs ys)"
  by (simp add: zipb_def)

lemma zipb_nil: "zipb f [] [] = Inr []"
  by (simp add: zipb_def)

lemmas zipb_simps = zipb_single_r zipb_single_l zipb_same zipb_nil

section \<open>Broadcasting, element by element\<close>

text \<open>
  Each array operation on operands that fit \<open>N\<close> gives an operand that fits \<open>N\<close>, with the
  operation applied at every index. The rules are syntax-directed, so the element-wise
  reading of a whole function body follows by applying them along the body.
\<close>

lemma rep_fits: "fits N a \<Longrightarrow> rep N a (is_arr a) (elt a)"
  by (cases a) (auto simp: fits_def rep_def bc_def list_eq_iff_nth_eq)

lemma rrep_Inr: "rep N a p g \<Longrightarrow> rrep N (Inr a) p g"
  by (simp add: rrep_def)

lemma rrep_arg: "fits N a \<Longrightarrow> rrep N (Inr a) (is_arr a) (elt a)"
  by (simp add: rrep_Inr rep_fits)

lemma rrep_sc: "rrep N (sc r) False (\<lambda>i. Fin r)"
  by (simp add: rrep_def rep_def bc_def sc_def)

lemma rrep_A0: "rrep N (Inr (A0 c)) False (\<lambda>i. c)"
  by (simp add: rrep_def rep_def bc_def)

lemma rrep_cong: "rrep N r p g \<Longrightarrow> p = p' \<Longrightarrow> g = g' \<Longrightarrow> rrep N r p' g'"
  by simp

lemma bop_rep:
  assumes "rep N a p g" "rep N b q h"
  shows "\<exists>c. bop f a b = Inr c \<and> rep N c (p \<or> q) (\<lambda>i. f (g i) (h i))"
proof -
  have a: "a = bc N p g" and b: "b = bc N q h"
    and cg: "p \<or> (\<forall>i. g i = g 0)" and ch: "q \<or> (\<forall>i. h i = h 0)"
    using assms by (simp_all add: rep_def)
  show ?thesis
  proof (cases p; cases q)
    assume "p" "q"
    then show ?thesis
      by (simp add: a b bc_def rep_def bop_map del: bop.simps(4))
  next
    assume "p" "\<not> q"
    with ch have "h i = h 0" for i by simp
    then have "(\<lambda>i. f (g i) (h i)) = (\<lambda>i. f (g i) (h 0))" by metis
    with \<open>p\<close> \<open>\<not> q\<close> show ?thesis
      by (simp add: a b bc_def rep_def)
  next
    assume "\<not> p" "q"
    with cg have "g i = g 0" for i by simp
    then have "(\<lambda>i. f (g i) (h i)) = (\<lambda>i. f (g 0) (h i))" by metis
    with \<open>\<not> p\<close> \<open>q\<close> show ?thesis
      by (simp add: a b bc_def rep_def)
  next
    assume "\<not> p" "\<not> q"
    with cg ch have "g i = g 0" "h i = h 0" for i by simp_all
    then have "(\<lambda>i. f (g i) (h i)) = (\<lambda>i. f (g 0) (h 0))" by metis
    with \<open>\<not> p\<close> \<open>\<not> q\<close> show ?thesis
      by (simp add: a b bc_def rep_def)
  qed
qed

lemma rrep_np2:
  assumes "rrep N a p g" "rrep N b q h"
  shows "rrep N (np2 f a b) (p \<or> q) (\<lambda>i. f (g i) (h i))"
  using assms bop_rep [of N _ p g _ q h f] by (auto simp: rrep_def np2_def)

lemma map_nd_rep:
  assumes "rep N a p g"
  shows "rep N (map_nd f a) p (\<lambda>i. f (g i))"
proof (cases p)
  case True
  with assms show ?thesis by (simp add: rep_def bc_def)
next
  case False
  with assms have "g i = g 0" for i by (simp add: rep_def)
  then have "(\<lambda>i. f (g i)) = (\<lambda>i. f (g 0))" by metis
  with False assms show ?thesis by (simp add: rep_def bc_def)
qed

lemma rrep_np1:
  assumes "rrep N a p g"
  shows "rrep N (np1 f a) p (\<lambda>i. f (g i))"
  using assms map_nd_rep [of N _ p g f] by (auto simp: rrep_def np1_def)

lemma rrep_Psi_M:
  assumes "rrep N r p g"
  shows "rrep N (bnd r calc_Psi_M) p (\<lambda>i. Psi_M_pt (g i))"
  using assms map_nd_rep [of N _ p g Psi_M_pt] by (auto simp: rrep_def calc_Psi_M_eq)

lemma rrep_bnd:
  assumes "rrep N r p g" "\<And>a. rep N a p g \<Longrightarrow> rrep N (F a) q h"
  shows "rrep N (bnd r F) q h"
  using assms by (auto simp: rrep_def)

lemmas rrep_ops = rrep_np2 [where f = fadd, folded np_add_def]
  rrep_np2 [where f = fsub, folded np_sub_def]
  rrep_np2 [where f = fmul, folded np_mul_def]
  rrep_np2 [where f = fdiv, folded np_div_def]
  rrep_np2 [where f = fmax, folded np_maximum_def]
  rrep_np2 [where f = fmin, folded np_minimum_def]
  rrep_np1 [where f = fneg, folded np_neg_def]
  rrep_np1 [where f = flog, folded np_log_def]
  rrep_np1 [where f = "\<lambda>x. fpow x e", folded np_pow_def]
  rrep_Psi_M rrep_bnd rrep_sc rrep_A0 for e

lemma rd_asarray: "rd h (np_asarray v) = Inr (val h v)"
  by (cases v) simp_all

lemma setitem_zero_mask:
  "np_setitem (Inr a) (np_eq (Inr a) (sc 0)) (isc c) =
     Inr (map_nd (\<lambda>x. if feq x (Fin 0) then Fin c else x) a)"
  using setitem_map_const [of "\<lambda>x. x" _ "\<lambda>x. feq x (Fin 0)"]
  by (cases a)
    (simp_all add: np_setitem_def np_eq_def np2_def sc_def isc_def del: setitem.simps(5))

lemma setitem_repl0:
  "np_setitem (Inr a) (np_eq (Inr a) (sc 0)) (isc (1 / 10 ^ 36)) = Inr (map_nd repl0 a)"
proof -
  have "repl0 = (\<lambda>x. if feq x (Fin 0) then Fin (1 / 10 ^ 36) else x)"
    by (rule ext) (simp add: repl0_def)
  then show ?thesis
    by (simp only: setitem_zero_mask)
qed

lemma pair_result:
  assumes "rrep N r p g"
  shows "\<exists>a. bnd r (\<lambda>u_star. Inr (u_star, h)) = Inr (a, h) \<and> rep N a p g"
  using assms by (auto simp: rrep_def)

lemma bnd_assoc: "bnd (bnd r f) g = bnd r (\<lambda>x. bnd (f x) g)"
  by (cases r) simp_all


lemma calc_u_star_unfold:
  assumes "no_alias L u" "no_alias L z_u" "no_alias L d_0" "no_alias L z_0M"
  shows "calc_u_star h u z_u L d_0 z_0M False =
     bnd (bnd (bnd (np_div (np_sub (Inr (val h z_u)) (Inr (val h d_0)))
                 (Inr (map_nd repl0 (val h L)))) calc_Psi_M) (\<lambda>Psi_M.
      bnd (bnd (np_div (Inr (val h z_0M)) (Inr (map_nd repl0 (val h L)))) calc_Psi_M) (\<lambda>Psi_M0.
      np_div (np_mul (Inr (val h u)) (sc k))
        (np_add (np_sub (np_log (np_div (np_sub (Inr (val h z_u)) (Inr (val h d_0)))
            (Inr (val h z_0M)))) (Inr Psi_M)) (Inr Psi_M0)))))
       (\<lambda>u_star. Inr (u_star, heap_after h L))"
proof (cases L)
  case (PyFloat x)
  then show ?thesis
    by (simp add: calc_u_star_def Let_def rd_asarray bnd_assoc setitem_repl0 del: power_numeral)
next
  case (NdArray p)
  have rdq: "rd (h(p := a)) (np_asarray v) = Inr (val h v)" if "no_alias (NdArray p) v" for v a
    using that by (cases v) simp_all
  from NdArray show ?thesis
    by (simp add: calc_u_star_def Let_def bnd_assoc setitem_repl0 rdq
        assms [unfolded NdArray] del: power_numeral)
qed

lemma calc_u_star_rep:
  assumes "fits N (val h u)" "fits N (val h z_u)" "fits N (val h L)" "fits N (val h d_0)"
    "fits N (val h z_0M)"
    and "no_alias L u" "no_alias L z_u" "no_alias L d_0" "no_alias L z_0M"
  shows "\<exists>a. calc_u_star h u z_u L d_0 z_0M False = Inr (a, heap_after h L)
    \<and> rep N a (is_arr (val h u) \<or> is_arr (val h z_u) \<or> is_arr (val h L) \<or> is_arr (val h d_0)
                 \<or> is_arr (val h z_0M))
        (\<lambda>i. u_star_pt False (elt (val h u) i) (elt (val h z_u) i) (elt (val h L) i)
               (elt (val h d_0) i) (elt (val h z_0M) i))"
proof -
  have L': "rrep N (Inr (map_nd repl0 (val h L))) (is_arr (val h L)) (\<lambda>i. repl0 (elt (val h L) i))"
    by (intro rrep_Inr map_nd_rep rep_fits assms)
  have "rrep N
     (bnd (bnd (np_div (np_sub (Inr (val h z_u)) (Inr (val h d_0)))
                 (Inr (map_nd repl0 (val h L)))) calc_Psi_M) (\<lambda>Psi_M.
      bnd (bnd (np_div (Inr (val h z_0M)) (Inr (map_nd repl0 (val h L)))) calc_Psi_M) (\<lambda>Psi_M0.
      np_div (np_mul (Inr (val h u)) (sc k))
        (np_add (np_sub (np_log (np_div (np_sub (Inr (val h z_u)) (Inr (val h d_0)))
            (Inr (val h z_0M)))) (Inr Psi_M)) (Inr Psi_M0)))))
     (is_arr (val h u) \<or> is_arr (val h z_u) \<or> is_arr (val h L) \<or> is_arr (val h d_0)
                 \<or> is_arr (val h z_0M))
     (\<lambda>i. u_star_pt False (elt (val h u) i) (elt (val h z_u) i) (elt (val h L) i)
               (elt (val h d_0) i) (elt (val h z_0M) i))"
    apply (rule rrep_cong)
      apply (rule rrep_ops L' assms(1,2,4,5) [THEN rrep_arg] | (rule rrep_Inr, assumption))+
     apply (auto simp: u_star_pt_def)
    done
  from pair_result [OF this, of "heap_after h L"] show ?thesis
    by (simp add: calc_u_star_unfold assms)
qed

subsection \<open>Python floats among the arguments\<close>




lemma prep_cong:
  "prep N r p q g c \<Longrightarrow> p = p' \<Longrightarrow> g = g' \<Longrightarrow> c = c' \<Longrightarrow> prep N r p' q g' c'"
  by simp





















subsection \<open>Values that may be complex\<close>


















section \<open>The correction factors at and above the neutral point\<close>

lemma Psi_stable_zero: "Psi_stable (Fin 0) = NZ" "Psi_stable NZ = NZ"
  by (simp_all add: Psi_stable_def fpow_def fmul_def mk_fin_def mk_zero_def odd_int_def)

lemma Psi_H_pt_zero: "Psi_H_pt (Fin 0) = NZ" "Psi_H_pt NZ = NZ"
  by (simp_all add: Psi_H_pt_def Psi_stable_zero fge_def fle_def)

lemma Psi_M_pt_zero: "Psi_M_pt (Fin 0) = NZ" "Psi_M_pt NZ = NZ"
  by (simp_all add: Psi_M_pt_def Psi_stable_zero fge_def fle_def)

lemma Psi_pt_stable_eq: "fge z (Fin 0) \<Longrightarrow> Psi_H_pt z = Psi_stable z \<and> Psi_M_pt z = Psi_stable z"
  by (cases z) (auto simp: Psi_H_pt_def Psi_M_pt_def fge_def fle_def)

text \<open>
  Claim C9. \<^verbatim>\<open>calc_Psi_H(0)\<close> and \<^verbatim>\<open>calc_Psi_M(0)\<close> are zero: the stability ratio 0 takes the
  stable branch, whose formula \<open>-a * ln(0 + (1 + 0 ** b) ** (1 / b))\<close> evaluates to a zero
  (the negative zero, which compares equal to 0), with no special case in the code.
\<close>

theorem Psi_zero_at_neutral:
  "calc_Psi_H (A0 (Fin 0)) = Inr (A0 NZ) \<and> calc_Psi_M (A0 (Fin 0)) = Inr (A0 NZ)
   \<and> feq NZ (Fin 0)
   \<and> Psi_H_pt (Fin 0) =
       fmul (Fin (- 6.1)) (flog (fadd (Fin 0) (fpow (fadd (Fin 1) (fpow (Fin 0) 2.5)) (1 / 2.5))))"
  by (simp add: calc_Psi_H_eq calc_Psi_M_eq Psi_H_pt_zero Psi_M_pt_zero
      fpow_def fmul_def mk_fin_def mk_zero_def odd_int_def)

text \<open>
  Claim C8. At every element \<open>x \<ge> 0\<close> of the argument, \<^verbatim>\<open>calc_Psi_H\<close> and \<^verbatim>\<open>calc_Psi_M\<close>
  return the same value, that of \<open>-a * ln(x + (1 + x ** b) ** (1 / b))\<close> with \<open>a = 6.1\<close> and
  \<open>b = 2.5\<close>.
\<close>

theorem Psi_stable_branches_agree:
  "\<exists>r s. calc_Psi_H a = Inr r \<and> calc_Psi_M a = Inr s \<and> shape r = shape a \<and> shape s = shape a
     \<and> (\<forall>i < length (elems a). fge (elems a ! i) (Fin 0) \<longrightarrow>
          elems r ! i = elems s ! i
          \<and> elems r ! i = fmul (Fin (- 6.1))
               (flog (fadd (elems a ! i) (fpow (fadd (Fin 1) (fpow (elems a ! i) 2.5)) (1 / 2.5)))))"
  by (simp add: calc_Psi_H_eq calc_Psi_M_eq shape_map_nd elems_map_nd Psi_pt_stable_eq)
    (simp add: Psi_stable_def)

theorem Psi_stable_branches_agree_witness:
  "fge (Fin 2) (Fin 0) \<and> calc_Psi_H (A0 (Fin 2)) = calc_Psi_M (A0 (Fin 2))"
proof -
  have pos: "fge (Fin 2) (Fin 0)"
    by (simp add: fge_def fle_def)
  obtain r s where rs: "calc_Psi_H (A0 (Fin 2)) = Inr r" "calc_Psi_M (A0 (Fin 2)) = Inr s"
      "shape r = None" "shape s = None" "elems r ! 0 = elems s ! 0"
    using Psi_stable_branches_agree [of "A0 (Fin 2)"] pos by auto
  from rs(3,4,5) have "r = s"
    by (cases r; cases s) simp_all
  with rs(1,2) pos show ?thesis by simp
qed

section \<open>The sign of the heat correction factor\<close>

lemma stable_arg_ge_one:
  assumes "0 \<le> (r::real)"
  shows "1 \<le> r + (1 + r powr (5 / 2)) powr (2 / 5)"
proof -
  have "1 \<le> (1 + r powr (5 / 2)) powr (2 / 5)"
    by (rule ge_one_powr_ge_zero) simp_all
  with assms show ?thesis by linarith
qed

lemma Psi_stable_nonpos:
  assumes "fge z (Fin 0)"
  shows "fle (Psi_stable z) (Fin 0)"
proof (cases z)
  case (Fin r)
  with assms have r: "0 \<le> r"
    by (simp add: fge_def fle_def) linarith
  have one: "1 \<le> r + (1 + r powr (5 / 2)) powr (2 / 5)"
    using r by (rule stable_arg_ge_one)
  then have "0 \<le> ln (r + (1 + r powr (5 / 2)) powr (2 / 5))"
    by simp
  show ?thesis
  proof (cases "r = 0")
    case True
    with Fin show ?thesis by (simp add: Psi_stable_zero fle_def)
  next
    case False
    with r have "0 < r" by simp
    moreover have "0 < 1 + r powr (5 / 2)"
      by (simp add: add_pos_nonneg)
    moreover have "0 < r + (1 + r powr (5 / 2)) powr (2 / 5)"
      using one by linarith
    ultimately show ?thesis
      using Fin \<open>0 \<le> ln (r + (1 + r powr (5 / 2)) powr (2 / 5))\<close>
      by (simp add: Psi_stable_def fpow_def fmul_def mk_fin_def mk_zero_def fle_def
          mult_nonneg_nonpos mult_le_0_iff)
  qed
next
  case NZ
  then show ?thesis by (simp add: Psi_stable_zero fle_def)
next
  case PInf
  then show ?thesis
    by (simp add: Psi_stable_def fpow_def fmul_def mk_inf_def fle_def)
next
  case NInf
  with assms show ?thesis by (simp add: fge_def fle_def)
next
  case NaN
  with assms show ?thesis by (simp add: fge_def fle_def)
qed

lemma fpow_pos: "0 < r \<Longrightarrow> e \<noteq> 0 \<Longrightarrow> fpow (Fin r) e = Fin (r powr e)"
  by (simp add: fpow_def)

lemma flog_pos: "0 < r \<Longrightarrow> flog (Fin r) = Fin (ln r)"
  by simp

lemma fmul_fin: "a \<noteq> 0 \<Longrightarrow> b \<noteq> 0 \<Longrightarrow> fmul (Fin a) (Fin b) = Fin (a * b)"
  by (simp add: fmul_def mk_fin_def)

lemma fdiv_fin: "a \<noteq> 0 \<Longrightarrow> b \<noteq> 0 \<Longrightarrow> fdiv (Fin a) (Fin b) = Fin (a / b)"
  by (simp add: fdiv_def mk_fin_def)

lemma Psi_H_unstable_nonneg:
  assumes "flt z (Fin 0)"
  shows "fge (Psi_H_unstable z) (Fin 0)"
proof (cases z)
  case (Fin r)
  with assms have r: "r < 0" by simp
  define t where "t = (- r) powr (39 / 50)"
  define q where "q = (33 / 100 + t) / (33 / 100)"
  have t: "0 < t"
    using r by (simp add: t_def)
  have q: "1 < q"
    using t by (simp add: q_def)
  have lq: "0 < ln q"
    using q by (rule ln_gt_zero)
  have "fneg z = Fin (- r)"
    using r Fin by simp
  moreover have "fpow (Fin (- r)) (39 / 50) = Fin t"
    using r by (simp add: fpow_pos t_def)
  moreover have "fdiv (Fin (33 / 100 + t)) (Fin (33 / 100)) = Fin q"
    unfolding q_def using t by (intro fdiv_fin) simp_all
  moreover have "flog (Fin q) = Fin (ln q)"
    using q by simp
  moreover have "fmul (Fin (943 / 780)) (Fin (ln q)) = Fin (943 / 780 * ln q)"
    using lq by (intro fmul_fin) simp_all
  ultimately have "Psi_H_unstable z = Fin (943 / 780 * ln q)"
    by (simp add: Psi_H_unstable_def)
  with lq show ?thesis
    by (simp add: fge_def fle_def)
next
  case NInf
  then show ?thesis
    by (simp add: Psi_H_unstable_def fpow_def fdiv_def fmul_def mk_inf_def fge_def fle_def)
qed (use assms in simp_all)

text \<open>
  Claim C10. At every element \<open>x \<ge> 0\<close> the value of \<^verbatim>\<open>calc_Psi_H\<close> is \<open>\<le> 0\<close> (the argument
  of the logarithm in the stable branch is at least 1), and at every element \<open>x < 0\<close> it
  is \<open>\<ge> 0\<close> (the argument \<open>(c + (-x) ** n) / c\<close> is at least 1 and \<open>(1 - d) / n\<close> is positive).
\<close>

theorem Psi_H_sign:
  "\<exists>r. calc_Psi_H a = Inr r \<and> shape r = shape a
     \<and> (\<forall>i < length (elems a).
          (fge (elems a ! i) (Fin 0) \<longrightarrow> fle (elems r ! i) (Fin 0))
          \<and> (flt (elems a ! i) (Fin 0) \<longrightarrow> fge (elems r ! i) (Fin 0)))"
proof -
  have "fle (Psi_H_pt z) (Fin 0)" if "fge z (Fin 0)" for z
    using that Psi_pt_stable_eq [of z] Psi_stable_nonpos [of z] by simp
  moreover have "fge (Psi_H_pt z) (Fin 0)" if "flt z (Fin 0)" for z
    using that Psi_H_unstable_nonneg [of z] by (simp add: Psi_H_pt_def)
  ultimately show ?thesis
    by (simp add: calc_Psi_H_eq shape_map_nd elems_map_nd)
qed

theorem Psi_H_sign_witness:
  "fge (Fin 2) (Fin 0) \<and> flt (Fin (- 1)) (Fin 0)
   \<and> (\<exists>r. calc_Psi_H (A1 [Fin 2, Fin (- 1)]) = Inr r
          \<and> fle (elems r ! 0) (Fin 0) \<and> fge (elems r ! 1) (Fin 0))"
proof -
  have h: "fge (Fin 2) (Fin 0)" "flt (Fin (- 1)) (Fin 0)"
    by (simp_all add: fge_def fle_def)
  obtain r where r: "calc_Psi_H (A1 [Fin 2, Fin (- 1)]) = Inr r"
      "\<forall>i < 2. (fge ([Fin 2, Fin (- 1)] ! i) (Fin 0) \<longrightarrow> fle (elems r ! i) (Fin 0))
          \<and> (flt ([Fin 2, Fin (- 1)] ! i) (Fin 0) \<longrightarrow> fge (elems r ! i) (Fin 0))"
    using Psi_H_sign [of "A1 [Fin 2, Fin (- 1)]"] by auto
  from r(2) h have "fle (elems r ! 0) (Fin 0)" "fge (elems r ! 1) (Fin 0)"
    by force+
  with r(1) h show ?thesis by blast
qed

section \<open>The Monin-Obukhov length\<close>

text \<open>
  With \<open>ustar\<close>, \<open>T_A_K\<close>, \<open>rho\<close> and \<open>c_p\<close> arrays of one length the masked assignment
  writes the quotient where \<open>Hv\<close> is not 0 and leaves the initial value elsewhere; \<open>H\<close> and
  \<open>LE\<close> are never indexed and may be scalars.
\<close>

lemma calc_L_map:
  assumes "H = A0 h \<and> hf = (\<lambda>z. h) \<or> H = A1 (map hf zs)"
    and "LE = A0 l \<and> lf = (\<lambda>z. l) \<or> LE = A1 (map lf zs)"
  shows "calc_L ar lam (A1 (map g1 zs)) (A1 (map g2 zs)) (A1 (map g3 zs)) (A1 (map g4 zs)) H LE =
     Inr (A1 (map (\<lambda>z. L_pt ar lam (g1 z) (g2 z) (g3 z) (g4 z) (hf z) (lf z)) zs))"
  using assms
  apply (elim disjE conjE)
  apply (simp_all add: calc_L_def ar_defs nd_map_simps L_pt_def Hv_pt_def Let_def o_def
      del: bop.simps(4) ibop.simps(8) getitem.simps(2) setitem.simps(5,6))
  done

lemma calc_L_A0:
  "calc_L ar lam (A0 u) (A0 T) (A0 rho) (A0 cp) (A0 H) (A0 LE) =
     Inr (A0 (L_pt ar lam u T rho cp H LE))"
  by (simp add: calc_L_def ar_defs L_pt_def Hv_pt_def Let_def set_full_def zipb_def)

lemma calc_L_arrays:
  assumes "length Ts = length us" "length rs = length us" "length cs = length us"
    "fits (length us) H" "fits (length us) LE"
  shows "calc_L ar lam (A1 us) (A1 Ts) (A1 rs) (A1 cs) H LE =
     Inr (A1 (map (\<lambda>j. L_pt ar lam (us ! j) (Ts ! j) (rs ! j) (cs ! j) (elt H j) (elt LE j))
            [0..<length us]))"
proof -
  let ?zs = "[0..<length us]"
  have nth: "map (\<lambda>j. xs ! j) ?zs = xs" if "length xs = length us" for xs :: "'a list"
    using map_nth [of xs] that by simp
  have elt_A1: "elt (A1 xs) = (\<lambda>j. xs ! j)" for xs :: "'a list"
    by (rule ext) simp
  have H: "H = A0 (elt H 0) \<and> elt H = (\<lambda>z. elt H 0) \<or> H = A1 (map (elt H) ?zs)"
    using assms(4) by (cases H) (auto simp: fits_def nth elt_A1)
  have LE: "LE = A0 (elt LE 0) \<and> elt LE = (\<lambda>z. elt LE 0) \<or> LE = A1 (map (elt LE) ?zs)"
    using assms(5) by (cases LE) (auto simp: fits_def nth elt_A1)
  from calc_L_map [OF H LE, of ar lam "\<lambda>j. us ! j" "\<lambda>j. Ts ! j" "\<lambda>j. rs ! j" "\<lambda>j. cs ! j"]
  show ?thesis
    by (simp only: nth assms)
qed

lemma L_arrays_return:
  assumes "fits N ustar" "fits N T" "fits N rho" "fits N c_p" "fits N H" "fits N LE"
    and "is_arr ustar" "is_arr T" "is_arr rho" "is_arr c_p"
  shows "\<exists>rs. calc_L ar lam ustar T rho c_p H LE = Inr (A1 rs)"
proof -
  from assms obtain us Ts rs cs where eqs: "ustar = A1 us" "T = A1 Ts" "rho = A1 rs" "c_p = A1 cs"
    by (cases ustar; cases T; cases rho; cases c_p) simp_all
  with assms have len: "length Ts = length us" "length rs = length us" "length cs = length us"
      "fits (length us) H" "fits (length us) LE"
    by (simp_all add: fits_def)
  show ?thesis
    unfolding eqs calc_L_arrays [OF len] by simp
qed

text \<open>
  When one of \<open>T_A_K\<close>, \<open>c_p\<close>, \<open>H\<close>, \<open>LE\<close> is an array, so is the mask, and a 0-d array
  among \<open>ustar\<close>, \<open>L_const\<close>, \<open>rho\<close>, \<open>c_p\<close> cannot be indexed with it.
\<close>

lemma calc_L_IndexError:
  assumes "fits N ustar" "fits N T" "fits N rho" "fits N cp" "fits N H" "fits N LE"
    and "is_arr T \<or> is_arr cp \<or> is_arr H \<or> is_arr LE"
    and "\<not> (is_arr ustar \<and> is_arr T \<and> is_arr rho \<and> is_arr cp)"
  shows "calc_L ar lam ustar T rho cp H LE = Inl IndexError"
  using assms
  by (cases ustar; cases T; cases rho; cases cp; cases H; cases LE)
     (auto simp: calc_L_def ar_defs fits_def)

text \<open>
  When the four are scalars, the mask is 0-d: \<^verbatim>\<open>ustar[i]\<close> and \<^verbatim>\<open>rho[i]\<close> of arrays get a
  new first axis, and the call returns only if the shapes of the quotient and of \<^verbatim>\<open>L[i]\<close>
  agree.
\<close>

lemma calc_L_scalar_Hv_0:
  "calc_L ar lam (A0 u) (A0 T) (A1 rs) (A0 cp) (A0 H) (A0 LE) \<noteq> Inr L"
  by (auto simp: calc_L_def ar_defs Let_def zipb_simps bdim_def split: if_splits)

lemma calc_L_scalar_Hv_1:
  assumes "calc_L ar lam (A1 us) (A0 T) (A0 r) (A0 cp) (A0 H) (A0 LE) = Inr L"
  shows "L = A1 (map (\<lambda>u. L_pt ar lam u T r cp H LE) us)"
  using assms
  by (auto simp: calc_L_def ar_defs Let_def zipb_simps bdim_def set_row_def L_pt_def Hv_pt_def
      o_def split: if_splits)

lemma calc_L_scalar_Hv_2:
  assumes "calc_L ar lam (A1 us) (A0 T) (A1 rs) (A0 cp) (A0 H) (A0 LE) = Inr L"
    and "length rs = length us"
  shows "L = A1 (map2 (\<lambda>u r. L_pt ar lam u T r cp H LE) us rs)"
  using assms
  by (auto simp: calc_L_def ar_defs Let_def zipb_simps bdim_def set_row_def L_pt_def Hv_pt_def
      o_def zip_map1 zip_map2 split: if_splits)

lemma calc_L_scalar_Hv:
  assumes "calc_L ar lam ustar (A0 T) rho (A0 cp) (A0 H) (A0 LE) = Inr L"
    and "fits N ustar" "fits N rho"
  shows "L = bc N (is_arr ustar) (\<lambda>j. L_pt ar lam (elt ustar j) T (elt rho j) cp H LE)"
proof (cases ustar; cases rho)
  fix u r assume "ustar = A0 u" "rho = A0 r"
  with assms show ?thesis
    by (simp add: calc_L_A0 bc_def)
next
  fix u rs assume "ustar = A0 u" "rho = A1 rs"
  with assms(1) show ?thesis
    by (simp add: calc_L_scalar_Hv_0)
next
  fix us r assume *: "ustar = A1 us" "rho = A0 r"
  with assms have "L = A1 (map (\<lambda>u. L_pt ar lam u T r cp H LE) us)" "N = length us"
    by (simp_all add: calc_L_scalar_Hv_1 fits_def)
  with * show ?thesis
    using map_index [of "\<lambda>u. L_pt ar lam u T r cp H LE" us] by (simp add: bc_def)
next
  fix us rs assume *: "ustar = A1 us" "rho = A1 rs"
  with assms have "L = A1 (map2 (\<lambda>u r. L_pt ar lam u T r cp H LE) us rs)" "N = length us"
    "length rs = length us"
    by (simp_all add: calc_L_scalar_Hv_2 fits_def)
  with * show ?thesis
    using map2_index [of rs us "\<lambda>u r. L_pt ar lam u T r cp H LE"] by (simp add: bc_def)
qed

lemma calc_L_ustar_array_returns:
  assumes "a_ne ar (Hv_pt ar lam T cp H LE) (a_lit ar 0)" "fits (length us) rho"
  shows "\<exists>L. calc_L ar lam (A1 us) (A0 T) rho (A0 cp) (A0 H) (A0 LE) = Inr L"
  using assms
  by (cases rho)
    (auto simp: calc_L_def ar_defs Let_def zipb_simps set_row_def Hv_pt_def fits_def)

lemma calc_L_returns:
  assumes "calc_L ar lam ustar T rho cp H LE = Inr L"
    and "fits N ustar" "fits N T" "fits N rho" "fits N cp" "fits N H" "fits N LE"
  shows "L = bc N (is_arr ustar)
           (\<lambda>j. L_pt ar lam (elt ustar j) (elt T j) (elt rho j) (elt cp j) (elt H j) (elt LE j))"
proof (cases "is_arr T \<or> is_arr cp \<or> is_arr H \<or> is_arr LE")
  case False
  then obtain t c h l where "T = A0 t" "cp = A0 c" "H = A0 h" "LE = A0 l"
    by (cases T; cases cp; cases H; cases LE) auto
  with assms show ?thesis
    by (simp add: calc_L_scalar_Hv)
next
  case True
  with assms have "is_arr ustar \<and> is_arr T \<and> is_arr rho \<and> is_arr cp"
    using calc_L_IndexError [of N ustar T rho cp H LE ar lam] by auto
  then obtain us Ts rs cs where eqs: "ustar = A1 us" "T = A1 Ts" "rho = A1 rs" "cp = A1 cs"
    by (cases ustar; cases T; cases rho; cases cp) auto
  with assms have len: "length Ts = length us" "length rs = length us" "length cs = length us"
    "fits (length us) H" "fits (length us) LE" "N = length us"
    by (simp_all add: fits_def)
  from assms(1) show ?thesis
    unfolding eqs calc_L_arrays [OF len(1-5)] by (simp add: bc_def len)
qed

lemma fmul_one_PInf: "fmul (Fin 1) PInf = PInf"
  by (simp add: fmul_def mk_inf_def)

text \<open>
  Claim C1, as stated, fails: not every input gives a result. With arrays \<open>ustar\<close>, \<open>H\<close>
  and \<open>LE\<close> of shape (2,) and scalars \<open>T_A_K\<close>, \<open>rho\<close> and \<open>c_p\<close> the call raises IndexError
  (the mask has the shape of \<open>Hv\<close>, and \<^verbatim>\<open>L_const[i]\<close> indexes a 0-d array with it), here
  with \<open>H = LE = 0\<close>, where the claim promises plus infinity at every element.
\<close>

theorem calc_L_scalar_T_raises:
  "calc_L exact lam_test (A1 [Fin 0.3, Fin 0.4]) (A0 (Fin 300)) (A0 (Fin 1.2)) (A0 (Fin 1005))
      (A1 [Fin 0, Fin 0]) (A1 [Fin 0, Fin 0]) = Inl IndexError"
  by (rule calc_L_IndexError [of 2]) (simp_all add: fits_def)

text \<open>
  Claim C1, amended. For arguments that are scalars or arrays of shape (N,), in any
  arithmetic on the elements: whenever \<^verbatim>\<open>calc_L\<close> returns, the result has the shape of
  \<open>ustar\<close>, and with \<open>E = LE / (calc_lambda(T) * 1e6)\<close> and \<open>Hv = H + 0.61 * T * c_p * E\<close> its
  element is \<open>-ustar ** 3 / ((k * g / T) * (Hv / (rho * c_p)))\<close> with \<open>k = 0.4\<close> and
  \<open>g = 9.8\<close> wherever the computed \<open>Hv\<close> is not 0, and plus infinity wherever it is 0. The
  call returns when \<open>ustar\<close>, \<open>T_A_K\<close>, \<open>rho\<close> and \<open>c_p\<close> are arrays (\<open>H\<close> and \<open>LE\<close> arrays
  or scalars), when all six are scalars, and when \<open>ustar\<close> is an array, \<open>T_A_K\<close>, \<open>c_p\<close>, \<open>H\<close>
  and \<open>LE\<close> are scalars and \<open>Hv\<close> is not 0. It raises IndexError when one of \<open>T_A_K\<close>,
  \<open>c_p\<close>, \<open>H\<close>, \<open>LE\<close> is an array and one of \<open>ustar\<close>, \<open>T_A_K\<close>, \<open>rho\<close>, \<open>c_p\<close> a scalar.
\<close>

theorem calc_L_formula:
  assumes "fits N ustar" "fits N T_A_K" "fits N rho" "fits N c_p" "fits N H" "fits N LE"
    and "a_mul ar (a_lit ar 1) (a_inf ar) = a_inf ar"
  shows "(calc_L ar lam ustar T_A_K rho c_p H LE = Inr L \<longrightarrow>
            shape L = shape ustar \<and>
            (\<forall>j < length (elems L).
               let E = a_div ar (elt LE j) (a_mul ar (lam (elt T_A_K j)) (a_lit ar 1000000));
                   Hv = a_add ar (elt H j)
                          (a_mul ar (a_mul ar (a_mul ar (a_lit ar 0.61) (elt T_A_K j)) (elt c_p j)) E)
               in (a_ne ar Hv (a_lit ar 0) \<longrightarrow>
                     elems L ! j =
                       a_div ar (a_neg ar (a_pow ar (elt ustar j) 3))
                         (a_mul ar (a_div ar (a_mul ar (a_lit ar 0.4) (a_lit ar 9.8)) (elt T_A_K j))
                            (a_div ar Hv (a_mul ar (elt rho j) (elt c_p j)))))
                  \<and> (\<not> a_ne ar Hv (a_lit ar 0) \<longrightarrow> elems L ! j = a_inf ar)))
       \<and> ((is_arr ustar \<and> is_arr T_A_K \<and> is_arr rho \<and> is_arr c_p)
            \<or> \<not> (is_arr ustar \<or> is_arr T_A_K \<or> is_arr rho \<or> is_arr c_p \<or> is_arr H \<or> is_arr LE)
            \<or> (is_arr ustar \<and> \<not> (is_arr T_A_K \<or> is_arr c_p \<or> is_arr H \<or> is_arr LE)
                 \<and> a_ne ar (Hv_pt ar lam (elt T_A_K 0) (elt c_p 0) (elt H 0) (elt LE 0)) (a_lit ar 0))
          \<longrightarrow> (\<exists>L. calc_L ar lam ustar T_A_K rho c_p H LE = Inr L))
       \<and> ((is_arr T_A_K \<or> is_arr c_p \<or> is_arr H \<or> is_arr LE)
            \<and> \<not> (is_arr ustar \<and> is_arr T_A_K \<and> is_arr rho \<and> is_arr c_p)
          \<longrightarrow> calc_L ar lam ustar T_A_K rho c_p H LE = Inl IndexError)"
proof (intro conjI impI)
  assume r: "calc_L ar lam ustar T_A_K rho c_p H LE = Inr L"
  note L = calc_L_returns [OF r assms(1-6)]
  show "shape L = shape ustar"
    using assms(1) by (cases ustar) (simp_all add: L bc_def fits_def)
  show "\<forall>j < length (elems L).
               let E = a_div ar (elt LE j) (a_mul ar (lam (elt T_A_K j)) (a_lit ar 1000000));
                   Hv = a_add ar (elt H j)
                          (a_mul ar (a_mul ar (a_mul ar (a_lit ar 0.61) (elt T_A_K j)) (elt c_p j)) E)
               in (a_ne ar Hv (a_lit ar 0) \<longrightarrow>
                     elems L ! j =
                       a_div ar (a_neg ar (a_pow ar (elt ustar j) 3))
                         (a_mul ar (a_div ar (a_mul ar (a_lit ar 0.4) (a_lit ar 9.8)) (elt T_A_K j))
                            (a_div ar Hv (a_mul ar (elt rho j) (elt c_p j)))))
                  \<and> (\<not> a_ne ar Hv (a_lit ar 0) \<longrightarrow> elems L ! j = a_inf ar)"
    using assms(7)
    by (cases ustar) (simp_all add: L bc_def L_pt_def Hv_pt_def Let_def k_def gravity_def)
next
  assume "(is_arr ustar \<and> is_arr T_A_K \<and> is_arr rho \<and> is_arr c_p)
            \<or> \<not> (is_arr ustar \<or> is_arr T_A_K \<or> is_arr rho \<or> is_arr c_p \<or> is_arr H \<or> is_arr LE)
            \<or> (is_arr ustar \<and> \<not> (is_arr T_A_K \<or> is_arr c_p \<or> is_arr H \<or> is_arr LE)
                 \<and> a_ne ar (Hv_pt ar lam (elt T_A_K 0) (elt c_p 0) (elt H 0) (elt LE 0)) (a_lit ar 0))"
  then show "\<exists>L. calc_L ar lam ustar T_A_K rho c_p H LE = Inr L"
  proof (elim disjE)
    assume "is_arr ustar \<and> is_arr T_A_K \<and> is_arr rho \<and> is_arr c_p"
    with L_arrays_return [OF assms(1-6), of ar lam] show ?thesis by blast
  next
    assume "\<not> (is_arr ustar \<or> is_arr T_A_K \<or> is_arr rho \<or> is_arr c_p \<or> is_arr H \<or> is_arr LE)"
    then show ?thesis
      by (cases ustar; cases T_A_K; cases rho; cases c_p; cases H; cases LE)
        (simp_all add: calc_L_A0)
  next
    assume *: "is_arr ustar \<and> \<not> (is_arr T_A_K \<or> is_arr c_p \<or> is_arr H \<or> is_arr LE)
        \<and> a_ne ar (Hv_pt ar lam (elt T_A_K 0) (elt c_p 0) (elt H 0) (elt LE 0)) (a_lit ar 0)"
    then obtain us t c h l where "ustar = A1 us" "T_A_K = A0 t" "c_p = A0 c" "H = A0 h" "LE = A0 l"
      by (cases ustar; cases T_A_K; cases c_p; cases H; cases LE) auto
    with * assms(1,3) show ?thesis
      using calc_L_ustar_array_returns [of ar lam t c h l us rho] by (simp add: fits_def)
  qed
next
  assume "(is_arr T_A_K \<or> is_arr c_p \<or> is_arr H \<or> is_arr LE)
            \<and> \<not> (is_arr ustar \<and> is_arr T_A_K \<and> is_arr rho \<and> is_arr c_p)"
  then show "calc_L ar lam ustar T_A_K rho c_p H LE = Inl IndexError"
    using calc_L_IndexError [OF assms(1-6), of ar lam] by blast
qed

theorem calc_L_formula_witness:
  "\<exists>L. calc_L exact lam_test (A1 [Fin 0.3, Fin 0.4]) (A1 [Fin 300, Fin 290])
          (A1 [Fin 1.2, Fin 1.1]) (A1 [Fin 1005, Fin 1005]) (A1 [Fin 0, Fin 100]) (A0 (Fin 0)) = Inr L
     \<and> shape L = Some 2 \<and> elems L ! 0 = PInf
     \<and> elems L ! 1 = Fin (- (0.4 powr 3) / (0.4 * 9.8 / 290 * (100 / (1.1 * 1005))))"
proof -
  note inst = calc_L_formula [where N = 2 and ar = exact and lam = lam_test
      and ustar = "A1 [Fin 0.3, Fin 0.4]" and T_A_K = "A1 [Fin 300, Fin 290]"
      and rho = "A1 [Fin 1.2, Fin 1.1]" and c_p = "A1 [Fin 1005, Fin 1005]"
      and H = "A1 [Fin 0, Fin 100]" and LE = "A0 (Fin 0)"]
  have hyp: "fits 2 (A1 [Fin 0.3, Fin 0.4])" "fits 2 (A1 [Fin 300, Fin 290])"
    "fits 2 (A1 [Fin 1.2, Fin 1.1])" "fits 2 (A1 [Fin 1005, Fin 1005])"
    "fits 2 (A1 [Fin 0, Fin 100])" "fits 2 (A0 (Fin 0) :: ndarray)"
    "a_mul exact (a_lit exact 1) (a_inf exact) = a_inf exact"
    by (simp_all add: fits_def exact_def fmul_one_PInf)
  from inst [OF hyp, THEN conjunct2, THEN conjunct1]
  obtain L where L: "calc_L exact lam_test (A1 [Fin 0.3, Fin 0.4]) (A1 [Fin 300, Fin 290])
          (A1 [Fin 1.2, Fin 1.1]) (A1 [Fin 1005, Fin 1005]) (A1 [Fin 0, Fin 100]) (A0 (Fin 0)) = Inr L"
    by auto
  from inst [OF hyp, THEN conjunct1, of L] L
  have sh: "shape L = Some 2"
    and el: "\<forall>j < length (elems L).
               let E = a_div exact (elt (A0 (Fin 0)) j)
                         (a_mul exact (lam_test (elt (A1 [Fin 300, Fin 290]) j)) (a_lit exact 1000000));
                   Hv = a_add exact (elt (A1 [Fin 0, Fin 100]) j)
                          (a_mul exact (a_mul exact (a_mul exact (a_lit exact 0.61)
                             (elt (A1 [Fin 300, Fin 290]) j)) (elt (A1 [Fin 1005, Fin 1005]) j)) E)
               in (a_ne exact Hv (a_lit exact 0) \<longrightarrow>
                     elems L ! j =
                       a_div exact (a_neg exact (a_pow exact (elt (A1 [Fin 0.3, Fin 0.4]) j) 3))
                         (a_mul exact (a_div exact (a_mul exact (a_lit exact 0.4) (a_lit exact 9.8))
                              (elt (A1 [Fin 300, Fin 290]) j))
                            (a_div exact Hv (a_mul exact (elt (A1 [Fin 1.2, Fin 1.1]) j)
                               (elt (A1 [Fin 1005, Fin 1005]) j)))))
                  \<and> (\<not> a_ne exact Hv (a_lit exact 0) \<longrightarrow> elems L ! j = a_inf exact)"
    by simp_all
  from sh have len: "length (elems L) = 2"
    by (cases L) simp_all
  from el [THEN spec, of 0] len have "elems L ! 0 = PInf"
    by (simp add: Let_def exact_def lam_test_def fdiv_def fmul_def mk_fin_def mk_zero_def fne_def)
  moreover from el [THEN spec, of 1] len
  have "elems L ! 1 = Fin (- (0.4 powr 3) / (0.4 * 9.8 / 290 * (100 / (1.1 * 1005))))"
    by (simp add: Let_def exact_def lam_test_def fdiv_def fmul_def mk_fin_def mk_zero_def fne_def
        fpow_def)
  ultimately show ?thesis
    using L sh by blast
qed

section \<open>Friction velocity\<close>

subsection \<open>The logarithm of 94\<close>

lemma exp_taylor9_upper:
  assumes "0 \<le> x" "x \<le> 1"
  shows "exp (x::real) \<le> (\<Sum>m<9. x ^ m / fact m) + 3 * x ^ 9 / fact 9"
proof -
  obtain t where t: "\<bar>t\<bar> \<le> \<bar>x\<bar>"
    and e: "exp x = (\<Sum>m<9. x ^ m / fact m) + (exp t / fact 9) * x ^ 9"
    using Maclaurin_exp_le [of x 9] by blast
  from t assms have "t \<le> 1" by linarith
  then have "exp t \<le> exp 1" by simp
  also have "\<dots> \<le> 3" by (rule exp_le)
  finally have "exp t \<le> 3" .
  then have "(exp t / fact 9) * x ^ 9 \<le> (3 / fact 9) * x ^ 9"
    using assms by (intro mult_right_mono divide_right_mono) simp_all
  with e show ?thesis by simp
qed

lemma exp_taylor9_lower:
  assumes "0 \<le> x"
  shows "(\<Sum>m<9. x ^ m / fact m) \<le> exp (x::real)"
proof -
  obtain t where e: "exp x = (\<Sum>m<9. x ^ m / fact m) + (exp t / fact 9) * x ^ 9"
    using Maclaurin_exp_le [of x 9] by blast
  have "0 \<le> (exp t / fact 9) * x ^ 9"
    using assms by simp
  with e show ?thesis by linarith
qed

lemma ln_94_lower: "4543 / 1000 < ln (94::real)"
proof -
  have "exp (4543 / 8000 :: real) \<le> (\<Sum>m<9. (4543 / 8000) ^ m / fact m) + 3 * (4543 / 8000) ^ 9 / fact 9"
    by (rule exp_taylor9_upper) simp_all
  also have "\<dots> \<le> 1764514 / 1000000"
    by (simp add: lessThan_nat_numeral lessThan_Suc fact_numeral power_divide)
  finally have "exp (4543 / 8000 :: real) ^ 8 \<le> (1764514 / 1000000) ^ 8"
    by (intro power_mono) simp_all
  also have "\<dots> < 94" by (simp add: power_divide)
  finally have "exp (8 * (4543 / 8000) :: real) < 94"
    using exp_of_nat_mult [of 8 "4543 / 8000 :: real"] by simp
  then have "exp (4543 / 1000 :: real) < exp (ln 94)" by simp
  then show ?thesis by (simp only: exp_less_cancel_iff)
qed

lemma ln_94_upper: "ln (94::real) < 45444 / 10000"
proof -
  have "(1764822 / 1000000 :: real) \<le> (\<Sum>m<9. (45444 / 80000) ^ m / fact m)"
    by (simp add: lessThan_nat_numeral lessThan_Suc fact_numeral power_divide)
  also have "\<dots> \<le> exp (45444 / 80000)"
    by (rule exp_taylor9_lower) simp
  finally have low: "(1764822 / 1000000 :: real) \<le> exp (45444 / 80000)" .
  have "(94::real) < (1764822 / 1000000) ^ 8"
    by (simp add: power_divide)
  also have "\<dots> \<le> exp (45444 / 80000) ^ 8"
    using low by (rule power_mono) simp
  also have "\<dots> = exp (45444 / 10000)"
    using exp_of_nat_mult [of 8 "45444 / 80000 :: real"] by simp
  finally have "exp (ln 94) < exp (45444 / 10000 :: real)" by simp
  then show ?thesis by (simp only: exp_less_cancel_iff)
qed

lemma closed_form_value:
  "\<bar>3 * 0.4 / ln ((10 - 0.6) / 0.1) - 0.2641\<bar> < (0.00005::real)"
proof -
  define v :: real where "v = 3 * 0.4 / ln 94"
  have eq: "(10 - 0.6) / 0.1 = (94::real)" by simp
  have l: "4543 / 1000 < ln (94::real)" and u: "ln (94::real) < 45444 / 10000"
    by (rule ln_94_lower, rule ln_94_upper)
  have pos: "0 < ln (94::real)" using l by linarith
  have "v - 0.2641 < 0.00005"
    unfolding v_def using l pos by (simp add: field_simps)
  moreover have "- (v - 0.2641) < 0.00005"
    unfolding v_def using u pos by (simp add: field_simps)
  ultimately have "\<bar>v - 0.2641\<bar> < 0.00005"
    by (rule abs_less_iff [THEN iffD2, OF conjI])
  then show ?thesis
    unfolding eq v_def .
qed

lemma far_apart:
  fixes v :: real
  assumes "\<bar>v - a\<bar> < e" "e + e' \<le> \<bar>a - b\<bar>"
  shows "\<not> \<bar>v - b\<bar> \<le> e'"
  using assms by linarith

subsection \<open>Calls on Python floats and on one array\<close>

lemma calc_u_star_scalar:
  "calc_u_star h (PyFloat u) (PyFloat z_u) (PyFloat L) (PyFloat d_0) (PyFloat z_0M) False =
     Inr (A0 (u_star_pt False u z_u L d_0 z_0M), h)"
  using calc_u_star_rep [of 1 h "PyFloat u" "PyFloat z_u" "PyFloat L" "PyFloat d_0" "PyFloat z_0M"]
  by (auto simp: fits_def rep_def bc_def)

lemma fsub_fin: "b \<noteq> 0 \<Longrightarrow> fsub (Fin a) (Fin b) = Fin (a - b)"
  by (simp add: fsub_def)

lemma u_star_neutral_value:
  "u_star_pt False (Fin 3) (Fin 10) PInf (Fin 0.6) (Fin 0.1) = Fin (3 * 0.4 / ln ((10 - 0.6) / 0.1))"
proof -
  have "fdiv (Fin (47 / 5)) PInf = Fin 0" "fdiv (Fin (1 / 10)) PInf = Fin 0"
    by (simp_all add: fdiv_def mk_zero_def)
  moreover have "fdiv (Fin (47 / 5)) (Fin (1 / 10)) = Fin 94"
    by (simp add: fdiv_def mk_fin_def)
  moreover have "0 < ln (94::real)"
    by simp
  then have "fdiv (fmul (Fin 3) (Fin (2 / 5))) (Fin (ln 94)) = Fin (6 / (5 * ln 94))"
    by (simp add: fdiv_def fmul_def mk_fin_def)
  ultimately show ?thesis
    by (simp add: u_star_pt_def repl0_def fsub_def Psi_M_pt_zero k_def)
qed






lemma calc_u_star_L_array:
  "\<exists>a. calc_u_star h (PyFloat u) (PyFloat z_u) (NdArray p) (PyFloat d_0) (PyFloat z_0M) False =
         Inr (a, heap_after h (NdArray p))
       \<and> shape a = shape (h p)
       \<and> (\<forall>i < length (elems (h p)).
            elems a ! i = u_star_pt False u z_u (elems (h p) ! i) d_0 z_0M)"
proof -
  obtain a where a: "calc_u_star h (PyFloat u) (PyFloat z_u) (NdArray p) (PyFloat d_0)
        (PyFloat z_0M) False = Inr (a, heap_after h (NdArray p))"
    and r: "rep (length (elems (h p))) a (is_arr (h p))
        (\<lambda>i. u_star_pt False u z_u (elt (h p) i) d_0 z_0M)"
    using calc_u_star_rep [of "length (elems (h p))" h "PyFloat u" "PyFloat z_u" "NdArray p"
        "PyFloat d_0" "PyFloat z_0M"]
    by (cases "h p") (auto simp: fits_def)
  from r have "shape a = shape (h p)
       \<and> (\<forall>i < length (elems (h p)).
            elems a ! i = u_star_pt False u z_u (elems (h p) ! i) d_0 z_0M)"
    by (cases "h p") (auto simp: rep_def bc_def)
  with a show ?thesis by blast
qed

text \<open>
  Claim C3, at the input the claim names. \<^verbatim>\<open>calc_u_star\<close> with \<^verbatim>\<open>useRi=False\<close>, called on the
  array \<^verbatim>\<open>[0.0, 5.0]\<close> as \<open>L\<close>, returns with that array holding \<^verbatim>\<open>[1e-36, 5.0]\<close>: the
  caller's array is not the same after the call as before.
\<close>

theorem calc_u_star_overwrites_L:
  "calc_u_star heap_L0 (PyFloat (Fin 3)) (PyFloat (Fin 10)) (NdArray 0) (PyFloat (Fin 0.6))
      (PyFloat (Fin 0.1)) False =
     Inr (A1 [u_star_pt False (Fin 3) (Fin 10) (Fin 0) (Fin 0.6) (Fin 0.1),
              u_star_pt False (Fin 3) (Fin 10) (Fin 5) (Fin 0.6) (Fin 0.1)],
          heap_L0 (0 := A1 [Fin (1 / 10 ^ 36), Fin 5]))
   \<and> heap_L0 0 = A1 [Fin 0, Fin 5]
   \<and> (heap_L0 (0 := A1 [Fin (1 / 10 ^ 36), Fin 5])) 0 \<noteq> heap_L0 0"
proof -
  obtain a where a: "calc_u_star heap_L0 (PyFloat (Fin 3)) (PyFloat (Fin 10)) (NdArray 0)
        (PyFloat (Fin 0.6)) (PyFloat (Fin 0.1)) False = Inr (a, heap_after heap_L0 (NdArray 0))"
    and s: "shape a = shape (heap_L0 0)"
    and e: "\<forall>i < length (elems (heap_L0 0)).
            elems a ! i = u_star_pt False (Fin 3) (Fin 10) (elems (heap_L0 0) ! i) (Fin 0.6) (Fin 0.1)"
    using calc_u_star_L_array [of heap_L0 "Fin 3" "Fin 10" 0 "Fin 0.6" "Fin 0.1"] by blast
  from s obtain x y where xy: "a = A1 [x, y]"
    by (cases a) (auto simp: heap_L0_def length_Suc_conv)
  from e [THEN spec, of 0] e [THEN spec, of 1]
  have "a = A1 [u_star_pt False (Fin 3) (Fin 10) (Fin 0) (Fin 0.6) (Fin 0.1),
              u_star_pt False (Fin 3) (Fin 10) (Fin 5) (Fin 0.6) (Fin 0.1)]"
    by (simp add: xy heap_L0_def)
  moreover have "heap_after heap_L0 (NdArray 0) = heap_L0 (0 := A1 [Fin (1 / 10 ^ 36), Fin 5])"
    by (simp add: heap_L0_def repl0_def)
  ultimately show ?thesis
    using a by (simp add: heap_L0_def)
qed

text \<open>
  Claim C5, as stated, fails in its number: the call
  \<^verbatim>\<open>calc_u_star(u=3.0, z_u=10.0, L=inf, d_0=0.6, z_0M=0.1, useRi=False)\<close> returns the closed
  form \<open>3.0 * 0.4 / ln((10.0 - 0.6) / 0.1)\<close>, and that number does not round to 0.2734.
\<close>

theorem u_star_neutral_not_02734:
  "calc_u_star heap_L0 (PyFloat (Fin 3)) (PyFloat (Fin 10)) (PyFloat PInf) (PyFloat (Fin 0.6))
      (PyFloat (Fin 0.1)) False =
     Inr (A0 (Fin (3 * 0.4 / ln ((10 - 0.6) / 0.1))), heap_L0)
   \<and> \<not> \<bar>3 * 0.4 / ln ((10 - 0.6) / 0.1) - (0.2734::real)\<bar> \<le> 0.00005"
proof -
  have "\<not> \<bar>3 * 0.4 / ln ((10 - 0.6) / 0.1) - (0.2734::real)\<bar> \<le> 0.00005"
    by (rule far_apart [OF closed_form_value]) simp
  then show ?thesis
    by (simp only: calc_u_star_scalar u_star_neutral_value simp_thms)
qed

text \<open>
  Claim C5, amended. The call returns the closed form \<open>3.0 * 0.4 / ln((10.0 - 0.6) / 0.1)\<close>,
  which is 0.2641 to four decimal places, because both \<open>Psi_M\<close> terms are zeros at
  \<open>L = inf\<close>.
\<close>

theorem u_star_neutral_closed_form:
  "calc_u_star h (PyFloat (Fin 3)) (PyFloat (Fin 10)) (PyFloat PInf) (PyFloat (Fin 0.6))
      (PyFloat (Fin 0.1)) False =
     Inr (A0 (Fin (3 * 0.4 / ln ((10 - 0.6) / 0.1))), h)
   \<and> \<bar>3 * 0.4 / ln ((10 - 0.6) / 0.1) - (0.2641::real)\<bar> < 0.00005
   \<and> Psi_M_pt (fdiv (fsub (Fin 10) (Fin 0.6)) PInf) = NZ \<and> Psi_M_pt (fdiv (Fin 0.1) PInf) = NZ
   \<and> feq NZ (Fin 0)"
proof -
  have "fdiv (fsub (Fin 10) (Fin 0.6)) PInf = Fin 0" "fdiv (Fin 0.1) PInf = Fin 0"
    by (simp_all add: fdiv_def fsub_def mk_zero_def)
  then show ?thesis
    using closed_form_value
    by (simp only: calc_u_star_scalar u_star_neutral_value Psi_M_pt_zero feq.simps rv.simps simp_thms)
qed



section \<open>Canopy wind speed at neutral stability\<close>

lemma Psi_M_pt_NaN: "Psi_M_pt NaN = Fin 0"
  by (simp add: Psi_M_pt_def fge_def fle_def)

lemma Psi_M_pt_div_inf: "Psi_M_pt (fdiv x PInf) = NZ \<or> Psi_M_pt (fdiv x PInf) = Fin 0"
  by (cases x) (simp_all add: fdiv_def mk_zero_def Psi_M_pt_zero Psi_M_pt_NaN)

lemma flog_absorb:
  assumes "p = NZ \<or> p = Fin 0"
  shows "fsub (flog q) p = flog q" "fadd (flog q) p = flog q"
  using assms by (cases q; auto simp: fsub_def)+

lemma fmul_commute: "fmul x y = fmul y x"
proof -
  have s: "(sgn_neg x \<noteq> sgn_neg y) = (sgn_neg y \<noteq> sgn_neg x)"
    by auto
  show ?thesis
    unfolding fmul_def s by (simp add: mult.commute disj_commute)
qed

lemma bop_A0_r: "bop f a (A0 c) = Inr (map_nd (\<lambda>x. f x c) a)"
  by (cases a) simp_all

lemma bop_commute:
  assumes "\<And>x y. f x y = f y x"
  shows "bop f a b = bop f b a"
proof (cases a; cases b)
  fix xs ys assume ab: "a = A1 xs" "b = A1 ys"
  have "map2 f xs ys = map2 f ys xs"
    by (induction xs ys rule: list_induct2') (simp_all add: assms)
  with ab show ?thesis
    by (auto simp: assms)
qed (simp_all add: assms)

lemma map2_absorb:
  "length xs = length ys \<Longrightarrow> (\<And>x y. g (w x) (c y) = w x) \<Longrightarrow>
     map2 g (map w xs) (map c ys) = map w xs"
  by (induction xs ys rule: list_induct2) simp_all

lemma map_const_absorb: "(\<And>x. g (w x) y = w x) \<Longrightarrow> map (\<lambda>x. g x y) (map w xs) = map w xs"
  by (induction xs) simp_all

lemma bop_absorb_shape:
  assumes g: "\<And>x y. g (w x) (c y) = w x"
    and sh: "shape t = None \<or> shape t = shape q \<or> (shape t = Some 1 \<and> shape q \<noteq> None)"
  shows "bop g (map_nd w q) (map_nd c t) = Inr (map_nd w q)"
proof (cases q; cases t)
  fix qs ts assume qt: "q = A1 qs" "t = A1 ts"
  show ?thesis
  proof (cases "length ts = length qs")
    case True
    then show ?thesis
      using map2_absorb [of qs ts g w c] g qt by auto
  next
    case False
    with sh qt have "length ts = 1" by auto
    then obtain a where "ts = [a]"
      by (cases ts) auto
    with False qt show ?thesis
      using map_const_absorb [of g w "c a" qs] g by auto
  qed
next
  fix qs a assume "q = A1 qs" "t = A0 a"
  then show ?thesis
    using map_const_absorb [of g w "c a" qs] g by auto
qed (use sh g in auto)

lemma bop_shape:
  assumes "bop f t z = Inr q"
  shows "shape t = None \<or> shape t = shape q \<or> (shape t = Some 1 \<and> shape q \<noteq> None)"
    and "shape z = None \<or> shape z = shape q \<or> (shape z = Some 1 \<and> shape q \<noteq> None)"
  using assms by (cases t; cases z; auto split: if_splits)+

lemma pbop_Np_l: "pbop pf nf (Np a) y = bnd (bop nf a (asarray y)) (\<lambda>c. Inr (Np c))"
  by (cases y) simp_all

lemma pbop_Np_r: "pbop pf nf x (Np b) = bnd (bop nf (asarray x) b) (\<lambda>c. Inr (Np c))"
  by (cases x) simp_all

lemma pbop_shape:
  assumes "pbop pf nf t z = Inr q"
  shows "shape (asarray t) = None \<or> shape (asarray t) = shape (asarray q)
           \<or> (shape (asarray t) = Some 1 \<and> shape (asarray q) \<noteq> None)"
    and "shape (asarray z) = None \<or> shape (asarray z) = shape (asarray q)
           \<or> (shape (asarray z) = Some 1 \<and> shape (asarray q) \<noteq> None)"
proof -
  have "(is_pyf t \<and> is_pyf z) \<or> (\<exists>c. bop nf (asarray t) (asarray z) = Inr c \<and> q = Np c)"
    using assms by (cases t; cases z) (auto simp: bnd_def split: sum.splits)
  then show "shape (asarray t) = None \<or> shape (asarray t) = shape (asarray q)
           \<or> (shape (asarray t) = Some 1 \<and> shape (asarray q) \<noteq> None)"
    and "shape (asarray z) = None \<or> shape (asarray z) = shape (asarray q)
           \<or> (shape (asarray z) = Some 1 \<and> shape (asarray q) \<noteq> None)"
    using bop_shape [of nf "asarray t" "asarray z"] by (cases t; cases z; auto)+
qed

lemma div_by_inf:
  "\<exists>w. pbop float_truediv fdiv t (PyF PInf) = Inr w
     \<and> asarray w = map_nd (\<lambda>x. fdiv x PInf) (asarray t)"
  by (cases t) (simp_all add: float_truediv_def bop_A0_r)

text \<open>
  Claim C7. For all arguments, Python floats or numpy values, \<^verbatim>\<open>calc_u_C_star(u_friction,
  h_C, d_0, z_0M)\<close> with \<open>L\<close> left at its default of plus infinity returns exactly what
  \<^verbatim>\<open>calc_u_C(u_friction, h_C, d_0, z_0M)\<close> returns (an exception included): both \<open>Psi_M\<close>
  terms are zeros, which the logarithm absorbs.
\<close>

theorem u_C_star_neutral:
  "calc_u_C_star u_friction h_C d_0 z_0M L_default = calc_u_C u_friction h_C d_0 z_0M"
proof (cases "pbop (\<lambda>x y. Inr (fsub x y)) fsub h_C d_0")
  case (Inl e)
  then show ?thesis
    by (simp add: calc_u_C_star_def calc_u_C_def py_sub_def py_div_def py_log_def py_mul_def
        py_add_def py2_def)
next
  case (Inr t)
  note t = this
  define P where "P = (\<lambda>x. Psi_M_pt (fdiv x PInf))"
  obtain w where w: "pbop float_truediv fdiv t (PyF PInf) = Inr w"
    "asarray w = map_nd (\<lambda>x. fdiv x PInf) (asarray t)"
    using div_by_inf [of t] by auto
  obtain w0 where w0: "pbop float_truediv fdiv z_0M (PyF PInf) = Inr w0"
    "asarray w0 = map_nd (\<lambda>x. fdiv x PInf) (asarray z_0M)"
    using div_by_inf [of z_0M] by auto
  have psi: "calc_Psi_M (asarray w) = Inr (map_nd P (asarray t))"
    "calc_Psi_M (asarray w0) = Inr (map_nd P (asarray z_0M))"
    by (simp_all add: calc_Psi_M_eq w w0 nd.map_comp o_def P_def)
  show ?thesis
  proof (cases "pbop float_truediv fdiv t z_0M")
    case (Inl e)
    with t w w0 psi show ?thesis
      by (simp add: calc_u_C_star_def calc_u_C_def py_sub_def py_div_def py_log_def py_mul_def
          py_add_def py2_def L_default_def)
  next
    case (Inr q)
    define lg where "lg = map_nd flog (asarray q)"
    have s: "fsub (flog x) (P y) = flog x" and a: "fadd (flog x) (P y) = flog x" for x y
      using flog_absorb [OF Psi_M_pt_div_inf [of y], of x] by (simp_all add: P_def)
    have 1: "bop fsub lg (map_nd P (asarray t)) = Inr lg"
      unfolding lg_def using s pbop_shape(1) [OF Inr] by (rule bop_absorb_shape)
    have 2: "bop fadd lg (map_nd P (asarray z_0M)) = Inr lg"
      unfolding lg_def using a pbop_shape(2) [OF Inr] by (rule bop_absorb_shape)
    have 3: "bop fmul (asarray u_friction) lg = bop fmul lg (asarray u_friction)"
      by (rule bop_commute) (rule fmul_commute)
    from t Inr w w0 psi show ?thesis
      by (simp add: calc_u_C_star_def calc_u_C_def py_sub_def py_div_def py_log_def py_mul_def
          py_add_def py2_def L_default_def pbop_Np_l pbop_Np_r lg_def [symmetric] 1 2 3)
  qed
qed

section \<open>Scalars mixed with arrays\<close>

lemma pick_simps [simp]:
  "fits N (asarray (pick v i))" "is_arr (asarray (pick v i)) = False"
  "elt (asarray (pick v i)) j = elt (asarray v) i"
  "is_pyf (pick v i) = is_pyf v" "py_zero (pick v i) = py_zero v"
  "py_negative (pick v i) = py_negative v"
  by (cases v; simp add: fits_def)+




















section \<open>The limit on \<open>y\<close> in the momentum correction factor\<close>

lemma quad_pos: "0 < 1 - x + (x::real)\<^sup>2"
proof -
  have "1 - x + x\<^sup>2 = (x - 1 / 2)\<^sup>2 + 3 / 4"
    by (simp add: power2_eq_square algebra_simps)
  also have "\<dots> > 0"
    by (simp add: add_nonneg_pos)
  finally show ?thesis .
qed

lemma paulson_deriv:
  assumes "0 < x"
  shows "(paulson has_real_derivative 3 / ((1 + x) * (1 - x + x\<^sup>2))) (at x)"
proof -
  have q: "0 < 1 - x + x\<^sup>2" by (rule quad_pos)
  have s: "sqrt 3 * sqrt 3 = (3::real)" by simp
  have d1: "((\<lambda>x. ln (1 + x)) has_real_derivative 1 / (1 + x)) (at x)"
    using assms by (auto intro!: derivative_eq_intros simp: divide_simps)
  have d2: "((\<lambda>x. ln (1 - x + x\<^sup>2)) has_real_derivative (2 * x - 1) / (1 - x + x\<^sup>2)) (at x)"
    using q by (auto intro!: derivative_eq_intros simp: divide_simps)
  have d3: "((\<lambda>x. arctan ((2 * x - 1) / sqrt 3)) has_real_derivative
      (2 / sqrt 3) / (1 + ((2 * x - 1) / sqrt 3)\<^sup>2)) (at x)"
  proof -
    have "((\<lambda>x. 2 * x - 1) has_real_derivative 2) (at x)"
      by (auto intro!: derivative_eq_intros)
    then have "((\<lambda>x. (2 * x - 1) / sqrt 3) has_real_derivative 2 / sqrt 3) (at x)"
      by (rule DERIV_cdivide)
    from DERIV_chain2 [OF DERIV_arctan this]
    show ?thesis by (simp add: divide_inverse mult.commute)
  qed
  have "((\<lambda>x. ln (1 + x) - ln (1 - x + x\<^sup>2) / 2 + sqrt 3 * arctan ((2 * x - 1) / sqrt 3))
      has_real_derivative
        (1 / (1 + x) - ((2 * x - 1) / (1 - x + x\<^sup>2)) / 2
          + sqrt 3 * ((2 / sqrt 3) / (1 + ((2 * x - 1) / sqrt 3)\<^sup>2)))) (at x)"
    by (intro DERIV_add DERIV_diff DERIV_cdivide DERIV_cmult d1 d2 d3)
  moreover have "1 / (1 + x) - ((2 * x - 1) / (1 - x + x\<^sup>2)) / 2
          + sqrt 3 * ((2 / sqrt 3) / (1 + ((2 * x - 1) / sqrt 3)\<^sup>2))
        = 3 / ((1 + x) * (1 - x + x\<^sup>2))"
  proof -
    define w where "w = 1 + ((2 * x - 1) / sqrt 3)\<^sup>2"
    define r where "r = 1 - x + x\<^sup>2"
    have w: "w = 4 * r / 3"
      unfolding w_def r_def by (simp add: power_divide) (simp add: field_simps power2_eq_square)
    have r: "0 < r"
      unfolding r_def by (rule q)
    have "sqrt 3 * ((2 / sqrt 3) / w) = 2 / w"
      by simp
    also have "\<dots> = 3 / (2 * r)"
      using r by (simp add: w)
    finally have t: "sqrt 3 * ((2 / sqrt 3) / w) = 3 / (2 * r)" .
    have "1 / (1 + x) - ((2 * x - 1) / r) / 2 + 3 / (2 * r) = 3 / ((1 + x) * r)"
    proof -
      have "1 / (1 + x) - ((2 * x - 1) / r) / 2 + 3 / (2 * r) = 1 / (1 + x) + (2 - x) / r"
        using r by (simp add: field_simps)
      also have "\<dots> = (r + (2 - x) * (1 + x)) / ((1 + x) * r)"
        using r assms by (simp add: field_simps)
      also have "r + (2 - x) * (1 + x) = 3"
        unfolding r_def by (simp add: algebra_simps power2_eq_square)
      finally show ?thesis .
    qed
    then show ?thesis
      using t unfolding w_def r_def by simp
  qed
  ultimately show ?thesis
    unfolding paulson_def [abs_def] by simp
qed

lemma paulson_strict_mono:
  assumes "0 < a" "a < b"
  shows "paulson a < paulson b"
proof (rule DERIV_pos_imp_increasing [OF assms(2)])
  fix x assume "a \<le> x" "x \<le> b"
  with assms have x: "0 < x" by simp
  have "0 < 3 / ((1 + x) * (1 - x + x\<^sup>2))"
    using x quad_pos [of x] by simp
  with paulson_deriv [OF x] show "\<exists>y. (paulson has_real_derivative y) (at x) \<and> 0 < y"
    by blast
qed

lemma fdiv_fin_pos: "0 < b \<Longrightarrow> fdiv (Fin a) (Fin b) = Fin (a / b)"
  by (simp add: fdiv_def mk_fin_def mk_zero_def)

lemma fmul_fin_rv: "is_finite (fmul (Fin a) (Fin b))" "rv (fmul (Fin a) (Fin b)) = a * b"
  by (auto simp: fmul_def mk_fin_def mk_zero_def is_finite_def)

lemma fadd_fin_finite: "is_finite t \<Longrightarrow> fadd (Fin a) t = Fin (a + rv t)"
  by (cases t) (simp_all add: is_finite_def)

lemma fneg_fin_rv: "is_finite (fneg (Fin a))" "rv (fneg (Fin a)) = - a"
  by (simp_all add: is_finite_def)

lemma fadd_finite_fin: "is_finite t \<Longrightarrow> fadd t (Fin a) = Fin (rv t + a)"
  by (cases t) (simp_all add: is_finite_def)

lemma fmax_pos: "0 < r \<Longrightarrow> fmax (Fin r) (Fin 0) = Fin r"
  by (simp add: fmax_def fge_def fle_def)

lemma fmin_clamp: "B \<le> r \<Longrightarrow> fmin (Fin r) (Fin B) = Fin B"
  by (auto simp: fmin_def fle_def)

lemma Psi_M_unstable_expr:
  "Psi_M_unstable z =
     unstable_expr 0.33 0.41 0.333333
       (fpow (fdiv (fmax (fneg z) (Fin 0)) (Fin 0.33)) 0.333333)
       (fmin (fmax (fneg z) (Fin 0)) (Fin (0.41 powr (- 3))))"
  by (simp add: Psi_M_unstable_def unstable_expr_def Let_def)

lemma unstable_expr_value:
  assumes "0 < a" "0 < b" "e \<noteq> 0" "0 < X" "0 < Y"
  shows "unstable_expr a b e (Fin X) (Fin Y) =
     Fin (ln (a + Y) - 3 * b * Y powr e + b * a powr e * paulson X
          + (3 powr (1 / 2) * b * a powr e * pi / 6 - ln a))"
proof -
  define ratio where "ratio = (1 + X) powr 2 / (1 - X + X powr 2)"
  define q where "q = (2 * X - 1) / 3 powr (1 / 2)"
  note X = \<open>0 < X\<close>
  have s3: "(3::real) powr (1 / 2) = sqrt 3"
    by (simp add: powr_half_sqrt)
  have X2: "X powr 2 = X\<^sup>2" "(1 + X) powr 2 = (1 + X)\<^sup>2"
    using X by (simp_all add: powr_numeral)
  have den: "0 < 1 - X + X powr 2"
    unfolding X2 by (rule quad_pos)
  have num: "0 < (1 + X) powr 2"
    using X by simp
  have ratio: "0 < ratio"
    unfolding ratio_def using num den by simp
  have lnratio: "ln ratio = 2 * ln (1 + X) - ln (1 - X + X\<^sup>2)"
    unfolding ratio_def using num den X by (simp add: ln_div ln_powr X2(1) ln_realpow)
  have t1: "flog (fadd (Fin a) (Fin Y)) = Fin (ln (a + Y))"
    using assms by (simp add: add_pos_pos)
  have t2: "fmul (Fin (3 * b)) (fpow (Fin Y) e) = Fin (3 * b * Y powr e)"
    using assms by (simp add: fpow_pos fmul_fin)
  have t12: "fsub (Fin (ln (a + Y))) (Fin (3 * b * Y powr e)) = Fin (ln (a + Y) - 3 * b * Y powr e)"
    using assms by (simp add: fsub_fin)
  have lg: "flog (fdiv (fpow (fadd (Fin 1) (Fin X)) 2) (fadd (fsub (Fin 1) (Fin X)) (fpow (Fin X) 2))) =
      Fin (ln ratio)"
  proof -
    have a1: "fpow (fadd (Fin 1) (Fin X)) 2 = Fin ((1 + X) powr 2)"
      using X by (simp add: fpow_pos)
    have a2: "fadd (fsub (Fin 1) (Fin X)) (fpow (Fin X) 2) = Fin (1 - X + X powr 2)"
      using X by (simp add: fsub_fin fpow_pos)
    have a3: "fdiv (Fin ((1 + X) powr 2)) (Fin (1 - X + X powr 2)) = Fin ratio"
      unfolding ratio_def using den by (rule fdiv_fin_pos)
    show ?thesis
      unfolding a1 a2 a3 using ratio by (rule flog_pos)
  qed
  have at: "farctan (fdiv (fsub (fmul (Fin 2) (Fin X)) (Fin 1)) (Fin (3 powr (1 / 2)))) =
      Fin (arctan q)"
    using X by (simp add: fmul_fin fsub_fin fdiv_fin_pos q_def)
  have p0: "fadd (fneg (flog (Fin a))) (Fin (3 powr (1 / 2) * b * a powr e * pi / 6)) =
      Fin (3 powr (1 / 2) * b * a powr e * pi / 6 - ln a)"
    using assms(1) by (simp add: fadd_finite_fin fneg_fin_rv)
  have sum: "b * a powr e / 2 * ln ratio + 3 powr (1 / 2) * b * a powr e * arctan q =
      b * a powr e * paulson X"
    unfolding lnratio paulson_def q_def s3 by (simp add: field_simps)
  have "unstable_expr a b e (Fin X) (Fin Y) =
      Fin (ln (a + Y) - 3 * b * Y powr e
           + (b * a powr e / 2 * ln ratio) + (3 powr (1 / 2) * b * a powr e * arctan q)
           + (3 powr (1 / 2) * b * a powr e * pi / 6 - ln a))"
    unfolding unstable_expr_def t1 t2 t12 lg at p0
    by (simp only: fadd_fin_finite fmul_fin_rv fadd.simps)
  also have "\<dots> = Fin (ln (a + Y) - 3 * b * Y powr e + b * a powr e * paulson X
          + (3 powr (1 / 2) * b * a powr e * pi / 6 - ln a))"
    using sum by simp
  finally show ?thesis .
qed

lemma clamp_bound: "(0.41 :: real) powr (- 3) \<le> 20"
proof -
  have "(0.41 :: real) powr (- 3) = inverse (0.41 powr 3)"
    by (rule powr_minus)
  also have "(0.41 :: real) powr 3 = 0.41 ^ 3"
    by (rule powr_numeral) simp
  finally show ?thesis
    by (simp add: power_divide)
qed

lemma Psi_M_clamped_value:
  assumes "(0.41 :: real) powr (- 3) \<le> r"
  shows "Psi_M_pt (Fin (- r)) =
     Fin (ln (0.33 + 0.41 powr (- 3)) - 3 * 0.41 * (0.41 powr (- 3)) powr 0.333333
          + 0.41 * 0.33 powr 0.333333 * paulson ((r / 0.33) powr 0.333333)
          + (3 powr (1 / 2) * 0.41 * 0.33 powr 0.333333 * pi / 6 - ln 0.33))"
proof -
  have "0 < (0.41 :: real) powr (- 3)" by simp
  with assms have r: "0 < r" by linarith
  have "Psi_M_pt (Fin (- r)) = Psi_M_unstable (Fin (- r))"
    using r by (simp add: Psi_M_pt_def)
  also have "\<dots> = unstable_expr 0.33 0.41 0.333333 (Fin ((r / 0.33) powr 0.333333))
      (Fin (0.41 powr (- 3)))"
    using r assms by (simp add: Psi_M_unstable_expr fmax_pos fmin_clamp fdiv_fin_pos fpow_pos)
  also have "\<dots> = Fin (ln (0.33 + 0.41 powr (- 3)) - 3 * 0.41 * (0.41 powr (- 3)) powr 0.333333
          + 0.41 * 0.33 powr 0.333333 * paulson ((r / 0.33) powr 0.333333)
          + (3 powr (1 / 2) * 0.41 * 0.33 powr 0.333333 * pi / 6 - ln 0.33))"
    using r by (intro unstable_expr_value) simp_all
  finally show ?thesis .
qed

text \<open>
  Claim C2, at an input beyond the limit. For the stability ratios -20 and -100, both with
  \<open>-zoL \<ge> b ** -3\<close>, \<^verbatim>\<open>calc_Psi_M\<close> returns two different values: \<open>x\<close> is computed from \<open>y\<close>
  before \<open>y\<close> is limited, so the logarithm and arctangent terms in \<open>x\<close> still grow with
  \<open>-zoL\<close>.
\<close>

theorem Psi_M_no_saturation:
  "fge (fneg (Fin (- 20))) (Fin (0.41 powr (- 3)))
   \<and> fge (fneg (Fin (- 100))) (Fin (0.41 powr (- 3)))
   \<and> calc_Psi_M (A0 (Fin (- 20))) \<noteq> calc_Psi_M (A0 (Fin (- 100)))"
proof -
  have b: "(0.41 :: real) powr (- 3) \<le> 20" "(0.41 :: real) powr (- 3) \<le> 100"
    using clamp_bound by linarith+
  have "(20 / 0.33 :: real) powr 0.333333 < (100 / 0.33) powr 0.333333"
    by (intro powr_less_mono2) simp_all
  moreover have "0 < (20 / 0.33 :: real) powr 0.333333"
    by simp
  ultimately have "paulson ((20 / 0.33) powr 0.333333) < paulson ((100 / 0.33) powr 0.333333)"
    by (intro paulson_strict_mono)
  moreover have "0 < (0.41 :: real) * 0.33 powr 0.333333"
    by simp
  ultimately have "0.41 * 0.33 powr 0.333333 * paulson ((20 / 0.33) powr 0.333333)
      < 0.41 * 0.33 powr 0.333333 * paulson ((100 / 0.33) powr 0.333333)"
    by (intro mult_strict_left_mono)
  then have "Psi_M_pt (Fin (- 20)) \<noteq> Psi_M_pt (Fin (- 100))"
    unfolding Psi_M_clamped_value [OF b(1)] Psi_M_clamped_value [OF b(2)] by simp
  moreover have "fge (fneg (Fin (- 20))) (Fin (0.41 powr (- 3)))"
    "fge (fneg (Fin (- 100))) (Fin (0.41 powr (- 3)))"
    using b by (auto simp: fge_def fle_def)
  ultimately show ?thesis
    by (simp add: calc_Psi_M_A0)
qed

end
